(* ===== verification/Prelude.thy ===== *)
theory Prelude
  imports Complex_Main "HOL-Library.List_Lexorder" "HOL-Library.Char_ord"
    "HOL-Library.Product_Lexorder"
begin

text \<open>
  The JavaScript built-ins the plugin relies on, written as HOL functions, and the generic
  lemmas on lists, digits and the lexicographic string order that the component theories
  share. JavaScript string comparison (\<open><\<close> on strings) compares UTF-16 code units from
  the left, a proper prefix being smaller; on the ASCII strings the plugin builds this is
  the order \<open><\<close> of \<open>HOL-Library.List_Lexorder\<close> on \<open>char list\<close> with the character
  order of \<open>HOL-Library.Char_ord\<close>. A JavaScript number that holds an integer, or NaN, is a
  \<open>jsint\<close>; an absent property (\<open>undefined\<close>) is \<open>None\<close> of an option type.
\<close>

named_theorems js_simps "evaluation rules of the modelled JavaScript built-ins"
named_theorems digit_simps "facts on decimal digit lists"

section \<open>JavaScript numbers holding integers\<close>

datatype jsint = JInt int | JNaN

text \<open>\<open>Math.floor\<close> of a property read: \<open>undefined\<close> gives NaN.\<close>

definition js_floor :: "real option \<Rightarrow> jsint" where
  "js_floor v = (case v of None \<Rightarrow> JNaN | Some r \<Rightarrow> JInt \<lfloor>r\<rfloor>)"

text \<open>\<open>n + 1\<close> where \<open>n\<close> may be \<open>undefined\<close> (\<open>undefined + 1\<close> is NaN).\<close>

definition js_succ :: "int option \<Rightarrow> jsint" where
  "js_succ v = (case v of None \<Rightarrow> JNaN | Some n \<Rightarrow> JInt (n + 1))"

text \<open>\<open>v || 0\<close> for a number property that may be \<open>undefined\<close> (\<open>0 || 0\<close> is \<open>0\<close> too).\<close>

definition js_or_zero :: "int option \<Rightarrow> int" where
  "js_or_zero v = (case v of None \<Rightarrow> 0 | Some n \<Rightarrow> n)"

text \<open>\<open>a || b\<close> for a string property that may be \<open>undefined\<close>: the empty string is falsy.\<close>

definition js_str_or :: "string option \<Rightarrow> string \<Rightarrow> string" where
  "js_str_or a b = (case a of None \<Rightarrow> b | Some s \<Rightarrow> if s \<noteq> [] then s else b)"

text \<open>Reading index \<open>i\<close> of an array: \<open>undefined\<close> past its end.\<close>

definition js_index :: "'a list \<Rightarrow> nat \<Rightarrow> 'a option" where
  "js_index xs i = (if i < length xs then Some (xs ! i) else None)"

section \<open>String(n): decimal rendering\<close>

fun decimal_digits :: "nat \<Rightarrow> nat list" where
  "decimal_digits n =
     (if n < 10 then [n] else decimal_digits (n div 10) @ [n mod 10])"

declare decimal_digits.simps [simp del]

definition digit_chr :: "nat \<Rightarrow> char" where
  "digit_chr d = char_of (48 + d)"

definition js_nat_string :: "nat \<Rightarrow> string" where
  "js_nat_string n = map digit_chr (decimal_digits n)"

text \<open>
  \<open>String(n)\<close> for an integer-valued number. Magnitudes of \<open>10^21\<close> and more, which
  JavaScript prints in exponent notation, are outside what the plugin produces and are
  rendered in plain decimal here.
\<close>

definition js_int_string :: "int \<Rightarrow> string" where
  "js_int_string i =
     (if i < 0 then CHR ''-'' # js_nat_string (nat (- i)) else js_nat_string (nat i))"

fun js_string :: "jsint \<Rightarrow> string" where
  "js_string (JInt i) = js_int_string i"
| "js_string JNaN = ''NaN''"

section \<open>padStart, substr, trim, parseInt\<close>

text \<open>\<open>s.padStart(k, c)\<close> with a one-character filler.\<close>

definition pad_start :: "nat \<Rightarrow> char \<Rightarrow> string \<Rightarrow> string" where
  "pad_start k c s = (if k \<le> length s then s else replicate (k - length s) c @ s)"

text \<open>\<open>s.substr(start, len)\<close> for a non-negative start.\<close>

definition js_substr :: "string \<Rightarrow> nat \<Rightarrow> nat \<Rightarrow> string" where
  "js_substr s start len = take len (drop start s)"

text \<open>
  \<open>s.trim()\<close>: JavaScript strips white space and line terminators at both ends; the
  ASCII ones (tab, line feed, vertical tab, form feed, carriage return, space) are
  modelled, the other Unicode space characters are not.
\<close>

definition js_space :: "char \<Rightarrow> bool" where
  "js_space c \<longleftrightarrow> of_char c \<in> {9, 10, 11, 12, 13, 32 :: nat}"

definition js_trim :: "string \<Rightarrow> string" where
  "js_trim s = rev (dropWhile js_space (rev (dropWhile js_space s)))"

text \<open>
  \<open>parseInt(s, 16)\<close>: the longest prefix of hexadecimal digits, read in base 16; NaN when
  there is none. (\<open>parseInt\<close> also skips leading white space and a sign; the plugin only
  feeds it two characters of a colour literal.)
\<close>

definition hex_value :: "char \<Rightarrow> nat option" where
  "hex_value c =
     (let n = of_char c :: nat in
      if 48 \<le> n \<and> n \<le> 57 then Some (n - 48)
      else if 97 \<le> n \<and> n \<le> 102 then Some (n - 87)
      else if 65 \<le> n \<and> n \<le> 70 then Some (n - 55)
      else None)"

fun hex_prefix :: "string \<Rightarrow> nat list" where
  "hex_prefix [] = []"
| "hex_prefix (c # cs) =
     (case hex_value c of None \<Rightarrow> [] | Some d \<Rightarrow> d # hex_prefix cs)"

definition parse_int_hex :: "string \<Rightarrow> nat option" where
  "parse_int_hex s =
     (let ds = hex_prefix s in
      if ds = [] then None else Some (foldl (\<lambda>acc d. 16 * acc + d) 0 ds))"

section \<open>Decimal digits\<close>

text \<open>
  \<open>fixed_digits k n\<close> is the \<open>k\<close> least significant decimal digits of \<open>n\<close>, most
  significant first: the digits that \<open>String(n).padStart(k, '0')\<close> shows when \<open>n\<close> has
  at most \<open>k\<close> of them (\<open>pad_start_nat_string\<close>). On them the string order is the
  numeric order (\<open>fixed_digits_less_iff\<close>).
\<close>

fun fixed_digits :: "nat \<Rightarrow> nat \<Rightarrow> nat list" where
  "fixed_digits 0 n = []"
| "fixed_digits (Suc k) n = fixed_digits k (n div 10) @ [n mod 10]"

declare js_floor_def [js_simps] js_succ_def [js_simps] js_or_zero_def [js_simps] js_str_or_def [js_simps] js_index_def [js_simps]
  js_int_string_def [js_simps] pad_start_def [js_simps] js_substr_def [js_simps]

section \<open>Lexicographic order on strings\<close>

lemma append_less_append_same_length:
  "length a = length b \<Longrightarrow> (a @ s < b @ t) \<longleftrightarrow> a < b \<or> (a = b \<and> s < t)"
for a b s t :: "'a::linorder list"
proof (induction a arbitrary: b)
  case Nil
  then show ?case by simp
next
  case (Cons x a)
  then obtain y b' where b: "b = y # b'" and len: "length a = length b'"
    by (cases b) auto
  from Cons.IH [OF len] b show ?case by auto
qed

lemma map_less_map_mono:
  fixes f :: "'a::linorder \<Rightarrow> 'b::linorder"
  assumes "\<And>x y. x \<in> set xs \<union> set ys \<Longrightarrow> y \<in> set xs \<union> set ys \<Longrightarrow> f x < f y \<longleftrightarrow> x < y"
  shows "map f xs < map f ys \<longleftrightarrow> xs < ys"
  using assms
proof (induction xs arbitrary: ys)
  case Nil
  then show ?case by (cases ys) auto
next
  case (Cons x xs)
  show ?case
  proof (cases ys)
    case Nil
    then show ?thesis by simp
  next
    case (Cons y ys')
    have xy: "f x < f y \<longleftrightarrow> x < y" "f y < f x \<longleftrightarrow> y < x"
      using Cons.prems Cons by auto
    then have eq: "f x = f y \<longleftrightarrow> x = y"
      by (metis not_less_iff_gr_or_eq)
    have "map f xs < map f ys' \<longleftrightarrow> xs < ys'"
      using Cons.IH [of ys'] Cons.prems Cons by auto
    with xy eq Cons show ?thesis by auto
  qed
qed

section \<open>Lemmas on decimal digits\<close>

lemma length_fixed_digits [digit_simps]: "length (fixed_digits k n) = k"
  by (induction k arbitrary: n) auto

lemma fixed_digits_zero [digit_simps]: "fixed_digits k 0 = replicate k 0"
  by (induction k) (auto simp: replicate_append_same)

lemma set_fixed_digits [digit_simps]: "d \<in> set (fixed_digits k n) \<Longrightarrow> d < 10"
  by (induction k arbitrary: n) auto

lemma decimal_digits_less_10 [digit_simps]: "d \<in> set (decimal_digits n) \<Longrightarrow> d < 10"
  by (induction n rule: decimal_digits.induct) (subst (asm) decimal_digits.simps, auto split: if_splits)

lemma nat_less_by_digits:
  "(m::nat) < n \<longleftrightarrow> m div 10 < n div 10 \<or> (m div 10 = n div 10 \<and> m mod 10 < n mod 10)"
proof -
  have "m = 10 * (m div 10) + m mod 10" "n = 10 * (n div 10) + n mod 10"
    "m mod 10 < 10" "n mod 10 < 10" by simp_all
  then show ?thesis by linarith
qed

lemma length_decimal_digits_bound:
  "n < 10 ^ k \<Longrightarrow> 0 < k \<Longrightarrow> length (decimal_digits n) \<le> k"
proof (induction n arbitrary: k rule: decimal_digits.induct)
  case (1 n)
  show ?case
  proof (cases "n < 10")
    case True
    with "1.prems" show ?thesis by (simp add: decimal_digits.simps [of n])
  next
    case False
    with "1.prems" obtain k' where k: "k = Suc k'" and "0 < k'"
      by (cases k; cases "k - 1") auto
    with "1.prems" have "n div 10 < 10 ^ k'"
      by (simp add: less_mult_imp_div_less mult.commute)
    with "1.IH" False \<open>0 < k'\<close> have "length (decimal_digits (n div 10)) \<le> k'"
      by simp
    with False k show ?thesis by (simp add: decimal_digits.simps [of n])
  qed
qed

lemma fixed_digits_decimal:
  "length (decimal_digits n) \<le> k \<Longrightarrow>
   fixed_digits k n = replicate (k - length (decimal_digits n)) 0 @ decimal_digits n"
proof (induction k arbitrary: n)
  case 0
  then show ?case by (simp add: decimal_digits.simps [of n])
next
  case (Suc k)
  show ?case
  proof (cases "n < 10")
    case True
    then show ?thesis
      by (simp add: decimal_digits.simps [of n] fixed_digits_zero replicate_append_same)
  next
    case False
    then have dd: "decimal_digits n = decimal_digits (n div 10) @ [n mod 10]"
      by (simp add: decimal_digits.simps [of n])
    with Suc.prems have "length (decimal_digits (n div 10)) \<le> k"
      by simp
    with Suc.IH dd show ?thesis
      by (simp add: Suc_diff_le)
  qed
qed

lemma fixed_digits_less_iff [digit_simps]:
  "m < 10 ^ k \<Longrightarrow> n < 10 ^ k \<Longrightarrow> fixed_digits k m < fixed_digits k n \<longleftrightarrow> m < n"
proof (induction k arbitrary: m n)
  case 0
  then show ?case by simp
next
  case (Suc k)
  have m: "m div 10 < 10 ^ k" and n: "n div 10 < 10 ^ k"
    using Suc.prems by (simp_all add: less_mult_imp_div_less mult.commute)
  have "fixed_digits k (m div 10) = fixed_digits k (n div 10) \<longleftrightarrow> m div 10 = n div 10"
    using Suc.IH [OF m n] Suc.IH [OF n m] by (metis linorder_neqE_nat less_irrefl)
  with Suc.IH [OF m n] show ?case
    by (simp add: append_less_append_same_length length_fixed_digits nat_less_by_digits [of m n])
qed

lemma of_char_digit_chr: "d < 10 \<Longrightarrow> of_char (digit_chr d) = 48 + d"
  by (simp add: digit_chr_def)

lemma digit_chr_less_iff: "a < 10 \<Longrightarrow> b < 10 \<Longrightarrow> digit_chr a < digit_chr b \<longleftrightarrow> a < b"
  by (simp add: less_char_def of_char_digit_chr)

lemma pad_start_nat_string:
  "n < 10 ^ k \<Longrightarrow> 0 < k \<Longrightarrow>
   pad_start k (CHR ''0'') (js_nat_string n) = map digit_chr (fixed_digits k n)"
proof -
  assume "n < 10 ^ k" "0 < k"
  then have len: "length (decimal_digits n) \<le> k"
    by (rule length_decimal_digits_bound)
  have "digit_chr 0 = CHR ''0''" by code_simp
  with len show ?thesis
    by (auto simp: pad_start_def js_nat_string_def fixed_digits_decimal)
qed

lemma decimal_digits_single: "n < 10 \<Longrightarrow> decimal_digits n = [n]"
  by (simp add: decimal_digits.simps)

lemma decimal_digits_not_Nil [simp]: "decimal_digits n \<noteq> []"
  by (induction n rule: decimal_digits.induct) (simp add: decimal_digits.simps)

lemma length_decimal_digits_lower:
  "10 ^ k \<le> n \<Longrightarrow> k < length (decimal_digits n)"
proof (induction n arbitrary: k rule: decimal_digits.induct)
  case (1 n)
  show ?case
  proof (cases k)
    case 0
    then show ?thesis by (simp add: decimal_digits.simps)
  next
    case (Suc k')
    with "1.prems" have "10 ^ Suc k' \<le> n" by simp
    then have n: "\<not> n < 10" and "10 ^ k' \<le> n div 10"
      using div_le_mono [of "10 ^ Suc k'" n 10] one_le_power [of "10::nat" k'] by auto
    with "1.IH" have "k' < length (decimal_digits (n div 10))" by blast
    with n Suc show ?thesis
      by (subst decimal_digits.simps) simp
  qed
qed

lemma hd_decimal_digits:
  "10 ^ k \<le> n \<Longrightarrow> n < 10 ^ Suc k \<Longrightarrow> hd (decimal_digits n) = n div 10 ^ k"
proof (induction k arbitrary: n)
  case 0
  then show ?case by (simp add: decimal_digits_single)
next
  case (Suc k)
  from Suc.prems(1) have n: "\<not> n < 10" and "10 ^ k \<le> n div 10"
    using div_le_mono [of "10 ^ Suc k" n 10] one_le_power [of "10::nat" k] by auto
  moreover from Suc.prems(2) have "n div 10 < 10 ^ Suc k"
    by (simp add: div_less_iff_less_mult mult.commute)
  ultimately have "hd (decimal_digits (n div 10)) = n div 10 div 10 ^ k" using Suc.IH by blast
  with n show ?case
    by (subst decimal_digits.simps) (simp add: div_mult2_eq)
qed

lemma list_less_common_prefix:
  fixes c d :: "'a :: linorder"
  shows "c < d \<Longrightarrow> xs @ c # ys < xs @ d # zs"
  by (induction xs) simp_all

section \<open>Evaluation rules\<close>

lemma digit_chr_eval [js_simps]:
  "digit_chr 0 = CHR ''0''" "digit_chr (Suc 0) = CHR ''1''" "digit_chr 1 = CHR ''1''" "digit_chr 2 = CHR ''2''"
  "digit_chr 3 = CHR ''3''" "digit_chr 4 = CHR ''4''" "digit_chr 5 = CHR ''5''"
  "digit_chr 6 = CHR ''6''" "digit_chr 7 = CHR ''7''" "digit_chr 8 = CHR ''8''"
  "digit_chr 9 = CHR ''9''"
  by code_simp+
lemma replicate_numeral_Cons [js_simps]:
  "replicate (numeral k) x = x # replicate (pred_numeral k) x"
  by (simp add: numeral_eq_Suc)
end
