(* ===== verification/Registry.thy ===== *)
theory Registry
  imports Prelude
begin

text \<open>
  The category registry of \<open>src/src/modules/semanticColoring.ts\<close>: the interface
  \<open>SemanticColor\<close>, the table \<open>SEMANTIC_COLORS\<close> (an object literal, whose
  \<open>Object.entries\<close> order is its declaration order, hence an association list), and the
  helper \<open>getContrastColor\<close> that picks the text colour of a category button. The table
  is pure data: its lemmas state its shape (six distinct keys in declaration order, each
  colour a \<open>#rrggbb\<close> literal) and the contrast colour of every entry.
\<close>

record semantic_color =
  name :: string
  color :: string
  description :: string

definition SEMANTIC_COLORS :: "(string \<times> semantic_color) list" where
  "SEMANTIC_COLORS =
    [(''challenge'', \<lparr>name = ''Challenge'', color = ''#3498db'',
        description = ''Identify challenges or problems in the text''\<rparr>),
     (''insight'', \<lparr>name = ''Insight'', color = ''#2ecc71'',
        description = ''Mark key insights or findings''\<rparr>),
     (''method'', \<lparr>name = ''Method'', color = ''#f1c40f'',
        description = ''Highlight methodologies or approaches''\<rparr>),
     (''conclusion'', \<lparr>name = ''Conclusion'', color = ''#9b59b6'',
        description = ''Mark conclusions or key takeaways''\<rparr>),
     (''question'', \<lparr>name = ''Question'', color = ''#e74c3c'',
        description = ''Indicate questions or areas for further investigation''\<rparr>),
     (''quote'', \<lparr>name = ''Quote'', color = ''#1abc9c'',
        description = ''Mark important quotes or citations''\<rparr>)]"

text \<open>
  \<open>getContrastColor\<close>: the three channels are read with \<open>parseInt(hex.substr(i, 2), 16)\<close>;
  a channel that does not parse is NaN, and a comparison with NaN is false, so the
  result is then white. The luminance is computed in exact rational arithmetic; the
  code's double arithmetic can differ from it only for a channel sum within one rounding
  error of the threshold, which no colour of the table is.
\<close>

definition luminance :: "nat \<Rightarrow> nat \<Rightarrow> nat \<Rightarrow> real" where
  "luminance r g b = (0.299 * real r + 0.587 * real g + 0.114 * real b) / 255"

definition getContrastColor :: "string \<Rightarrow> string" where
  "getContrastColor hexColor =
     (case (parse_int_hex (js_substr hexColor 1 2), parse_int_hex (js_substr hexColor 3 2),
            parse_int_hex (js_substr hexColor 5 2)) of
        (Some r, Some g, Some b) \<Rightarrow> if luminance r g b > 0.5 then ''#000000'' else ''#FFFFFF''
      | _ \<Rightarrow> ''#FFFFFF'')"

text \<open>A colour literal \<open>#rrggbb\<close> with lower-case hexadecimal digits.\<close>

definition hex_color_ok :: "string \<Rightarrow> bool" where
  "hex_color_ok s \<longleftrightarrow> length s = 7 \<and> hd s = CHR ''#'' \<and>
     list_all (\<lambda>c. c \<in> set ''0123456789abcdef'') (tl s)"

definition registry_ok :: "(string \<times> semantic_color) list \<Rightarrow> bool" where
  "registry_ok t \<longleftrightarrow> distinct (map fst t) \<and> list_all (\<lambda>(k, c). hex_color_ok (color c)) t"

lemmas registry_defs = SEMANTIC_COLORS_def registry_ok_def hex_color_ok_def

text \<open>
  The registry lists the six categories challenge, insight,
  method, conclusion, question and quote, in this declaration order, with distinct keys, and
  every colour is a \<open>#rrggbb\<close> literal.
\<close>

theorem registry_well_formed:
  "map fst SEMANTIC_COLORS = [''challenge'', ''insight'', ''method'', ''conclusion'', ''question'', ''quote''] \<and>
   registry_ok SEMANTIC_COLORS"
  by (simp add: registry_defs)

text \<open>
  The button text colour \<open>getContrastColor\<close> picks for the
  categories, in registry order, is black for challenge, insight, method and quote and white
  for conclusion and question.
\<close>

theorem contrast_colors:
  "map (getContrastColor \<circ> color \<circ> snd) SEMANTIC_COLORS =
     [''#000000'', ''#000000'', ''#000000'', ''#FFFFFF'', ''#FFFFFF'', ''#000000'']"
  by (simp add: SEMANTIC_COLORS_def getContrastColor_def parse_int_hex_def hex_value_def
      luminance_def js_simps)

end
