(* ===== verification/Resolver.thy ===== *)
theory Resolver
  imports Prelude
begin

text \<open>
  The position resolver: the first half of \<open>applySemanticColor\<close> in
  \<open>src/src/modules/semanticColoring.ts\<close> (lines 160--241), which reconstructs the page
  index and the rectangles of the current selection from three sources tried in order:
  the selection ranges of the reader's primary view, the reader's \<open>_currentSelection\<close>,
  and the pending annotation cached by the popup handler. The host reader's internal
  objects are records whose fields are the properties the code reads; a property that
  may be absent is an option. The tiers are one definition each, composed by
  \<open>resolve_position\<close> as the code sequences its \<open>if\<close> blocks over the two variables
  \<open>position\<close> and \<open>pageLabel\<close>.
\<close>

section \<open>The host's selection objects\<close>

text \<open>A rectangle is the array \<open>[x0, y0, x1, y1]\<close> (any length in the type, as in the code).\<close>

type_synonym rect = "real list"

record position =
  pageIndex :: "int option"
  rects :: "rect list option"

text \<open>
  An annotation-like selection object: the \<open>annotation\<close> of a popup event, the reader's
  \<open>_currentSelection\<close>, or the cached \<open>pendingAnnotation\<close>. Text \<open>None\<close> is
  \<open>undefined\<close>; the empty text is falsy in the code, as \<open>undefined\<close> is.
\<close>

record selection =
  sel_text :: "string option"
  sel_position :: "position option"
  sel_pageIndex :: "int option"

record selection_range =
  range_position :: "position option"

record primary_view =
  selectionRanges :: "selection_range list option"

record reader_state =
  selectedAnnotationIDs :: "string list option"

record internal_reader =
  ir_state :: "reader_state option"
  primaryView :: "primary_view option"
  currentSelection :: "selection option"
  ir_selectedText :: "string option"

text \<open>A position is usable for a highlight when its \<open>rects\<close> is present and non-empty.\<close>

definition has_rects :: "position \<Rightarrow> bool" where
  "has_rects p \<longleftrightarrow> (case rects p of None \<Rightarrow> False | Some xs \<Rightarrow> xs \<noteq> [])"

section \<open>Tier 1: the primary view's selection ranges (lines 165--192)\<close>

text \<open>\<open>internalReader._state?.selectedAnnotationIDs?.length === 0\<close>\<close>

definition no_annotation_selected :: "internal_reader \<Rightarrow> bool" where
  "no_annotation_selected r \<longleftrightarrow>
     (case ir_state r of None \<Rightarrow> False | Some st \<Rightarrow> selectedAnnotationIDs st = Some [])"

text \<open>
  The \<open>for (const range of selectionRanges)\<close> loop: a range with a position overwrites
  \<open>pageIndex\<close> (possibly with \<open>undefined\<close>) and appends its rects, if any.
\<close>

fun collect_ranges :: "selection_range list \<Rightarrow> int option \<Rightarrow> rect list \<Rightarrow> int option \<times> rect list" where
  "collect_ranges [] page acc = (page, acc)"
| "collect_ranges (r # rs) page acc =
     (case range_position r of
        None \<Rightarrow> collect_ranges rs page acc
      | Some p \<Rightarrow>
          collect_ranges rs (pageIndex p) (case rects p of None \<Rightarrow> acc | Some xs \<Rightarrow> acc @ xs))"

definition primary_view_position :: "internal_reader option \<Rightarrow> (position \<times> string) option" where
  "primary_view_position ir =
     (case ir of
        None \<Rightarrow> None
      | Some r \<Rightarrow>
          if \<not> no_annotation_selected r then None
          else (case primaryView r of
                  None \<Rightarrow> None
                | Some pv \<Rightarrow>
                    (case selectionRanges pv of
                       None \<Rightarrow> None
                     | Some ranges \<Rightarrow>
                         if ranges = [] then None
                         else (case collect_ranges ranges (Some 0) [] of
                                 (page, rs) \<Rightarrow>
                                   if rs \<noteq> []
                                   then Some (\<lparr>pageIndex = page, rects = Some rs\<rparr>,
                                              js_string (js_succ page))
                                   else None))))"

section \<open>Tier 2: the reader's current selection (lines 194--208)\<close>

text \<open>
  Reached only when tier 1 left \<open>position\<close> null (and so \<open>pageLabel\<close> null). The
  selection's position is kept only when it has rects; independently, the page label is
  taken from the selection's own \<open>pageIndex\<close> property when it is defined.
\<close>

definition current_selection_position ::
  "internal_reader option \<Rightarrow> position option \<times> string option" where
  "current_selection_position ir =
     (case ir of
        None \<Rightarrow> (None, None)
      | Some r \<Rightarrow>
          (case currentSelection r of
             None \<Rightarrow> (None, None)
           | Some sel \<Rightarrow>
               ((case sel_position sel of
                   None \<Rightarrow> None
                 | Some p \<Rightarrow> if has_rects p then Some p else None),
                (case sel_pageIndex sel of
                   None \<Rightarrow> None
                 | Some n \<Rightarrow> Some (js_string (js_succ (Some n)))))))"

section \<open>Tier 3: the cached pending annotation (lines 210--241)\<close>

text \<open>
  \<open>pendingAnnotation && pendingAnnotation.position && pendingAnnotation.position.rects\<close>:
  an array is truthy even when empty, so only an absent \<open>rects\<close> is refused here.
  \<open>None\<close> is the early return after "Please select text in the PDF first".
\<close>

definition pending_position :: "selection option \<Rightarrow> (position \<times> string option) option" where
  "pending_position pa =
     (case pa of
        None \<Rightarrow> None
      | Some a \<Rightarrow>
          (case sel_position a of
             None \<Rightarrow> None
           | Some p \<Rightarrow>
               if rects p = None then None
               else Some (p, Some (js_int_string (js_or_zero (pageIndex p) + 1)))))"

section \<open>The resolver\<close>

text \<open>
  The two variables \<open>position\<close> and \<open>pageLabel\<close> after tiers 1 and 2, then the guard
  \<open>!position || !position.rects || position.rects.length === 0\<close> of tier 3. The result
  is the position and the page label, or \<open>None\<close> for the user-visible failure.
\<close>

definition resolve_position ::
  "internal_reader option \<Rightarrow> selection option \<Rightarrow> (position \<times> string option) option" where
  "resolve_position ir pending =
     (let (pos, lbl) =
        (case primary_view_position ir of
           Some (p, l) \<Rightarrow> (Some p, Some l)
         | None \<Rightarrow> current_selection_position ir)
      in case pos of
           Some p \<Rightarrow> if has_rects p then Some (p, lbl) else pending_position pending
         | None \<Rightarrow> pending_position pending)"

lemmas tier_defs = primary_view_position_def current_selection_position_def
  pending_position_def

section \<open>The contract: the first usable selection source\<close>

text \<open>
  The specification describes the resolver as a list of selection sources tried in a fixed
  order, the first one with a non-empty \<open>rects\<close> winning, with no merging across
  sources. \<open>selection_sources\<close> lists the three candidates the code inspects and
  \<open>first_usable\<close> picks the winner.
\<close>

definition usable :: "position option \<Rightarrow> position option" where
  "usable c = (case c of None \<Rightarrow> None | Some p \<Rightarrow> if has_rects p then Some p else None)"

fun first_usable :: "position option list \<Rightarrow> position option" where
  "first_usable [] = None"
| "first_usable (c # cs) = (case usable c of Some p \<Rightarrow> Some p | None \<Rightarrow> first_usable cs)"

definition selection_sources :: "internal_reader option \<Rightarrow> selection option \<Rightarrow> position option list" where
  "selection_sources ir pa =
     [map_option fst (primary_view_position ir), fst (current_selection_position ir),
      (case pa of None \<Rightarrow> None | Some a \<Rightarrow> sel_position a)]"

text \<open>The cached annotation does not carry a present but empty \<open>rects\<close> array.\<close>

definition no_empty_pending :: "selection option \<Rightarrow> bool" where
  "no_empty_pending pa \<longleftrightarrow>
     (case pa of
        None \<Rightarrow> True
      | Some a \<Rightarrow> (case sel_position a of None \<Rightarrow> True | Some p \<Rightarrow> rects p \<noteq> Some []))"

section \<open>Lemmas\<close>

lemma collect_ranges_rects:
  "snd (collect_ranges rs page acc) =
     acc @ concat [case rects p of None \<Rightarrow> [] | Some xs \<Rightarrow> xs. Some p \<leftarrow> map range_position rs]"
  by (induction rs page acc rule: collect_ranges.induct) (auto split: option.splits)

lemma collect_ranges_page:
  "fst (collect_ranges rs page acc) = last (page # [pageIndex p. Some p \<leftarrow> map range_position rs])"
  by (induction rs page acc rule: collect_ranges.induct) (auto split: option.splits)

lemma primary_view_position_has_rects:
  "primary_view_position ir = Some (p, l) \<Longrightarrow> has_rects p"
  by (auto simp: primary_view_position_def has_rects_def split: option.splits if_splits prod.splits)

lemma current_selection_position_has_rects:
  "fst (current_selection_position ir) = Some p \<Longrightarrow> has_rects p"
  by (auto simp: current_selection_position_def split: option.splits if_splits)

lemma resolve_position_rects:
  "resolve_position ir pa = Some (p, l) \<Longrightarrow> rects p \<noteq> None"
  by (auto simp: resolve_position_def pending_position_def has_rects_def
      split: option.splits if_splits prod.splits)

lemma resolve_position_None_iff:
  "resolve_position ir pa = None \<longleftrightarrow>
     primary_view_position ir = None \<and> fst (current_selection_position ir) = None \<and>
     pending_position pa = None"
  using primary_view_position_has_rects [of ir] current_selection_position_has_rects [of ir]
  by (cases "current_selection_position ir")
    (auto simp: resolve_position_def split: option.splits prod.splits)

lemma pending_position_refines:
  "no_empty_pending pa \<Longrightarrow>
   map_option fst (pending_position pa) = usable (case pa of None \<Rightarrow> None | Some a \<Rightarrow> sel_position a)"
  by (auto simp: no_empty_pending_def pending_position_def usable_def has_rects_def
      split: option.splits)

lemma resolve_position_has_rects:
  "resolve_position ir pa = Some (p, l) \<Longrightarrow> no_empty_pending pa \<Longrightarrow> has_rects p"
  by (auto simp: resolve_position_def pending_position_def no_empty_pending_def has_rects_def
      split: option.splits if_splits prod.splits)

lemma resolve_first_usable:
  "no_empty_pending pa \<Longrightarrow> map_option fst (resolve_position ir pa) = first_usable (selection_sources ir pa)"
proof (cases "primary_view_position ir")
  case None
  assume pa: "no_empty_pending pa"
  show ?thesis
  proof (cases "fst (current_selection_position ir)")
    case None2: None
    with None have "resolve_position ir pa = pending_position pa"
      by (auto simp: resolve_position_def split: prod.splits)
    moreover from None None2 have
      "first_usable (selection_sources ir pa) = usable (case pa of None \<Rightarrow> None | Some a \<Rightarrow> sel_position a)"
      by (simp add: selection_sources_def usable_def split: option.splits)
    ultimately show ?thesis
      using pending_position_refines [OF pa] by simp
  next
    case (Some p)
    then have "has_rects p" by (rule current_selection_position_has_rects)
    with None Some show ?thesis
      by (auto simp: resolve_position_def selection_sources_def usable_def split: prod.splits)
  qed
next
  case (Some pl)
  then obtain p l where pl: "primary_view_position ir = Some (p, l)" by (cases pl) auto
  then have "has_rects p" by (rule primary_view_position_has_rects)
  with pl show ?thesis
    by (simp add: resolve_position_def selection_sources_def usable_def)
qed

text \<open>
  Claim C1: when the cached annotation does not carry an empty
  \<open>rects\<close> array, the position the resolver returns is the first usable one of the three
  selection sources in their fixed order (primary-view ranges, current selection, cached
  annotation), and resolution fails exactly when none of them is usable.
\<close>

theorem resolve_position_refines:
  "no_empty_pending pa \<Longrightarrow> map_option fst (resolve_position ir pa) = first_usable (selection_sources ir pa)"
  by (rule resolve_first_usable)

text \<open>
  Claim C5: when the primary view's selection ranges yield a
  position (the user is mid-selection and the ranges carry rects), that position and its
  page label are the result, whatever the current selection and the cached annotation hold.
\<close>

theorem resolve_primary_view_first:
  "primary_view_position ir = Some (p, l) \<Longrightarrow> resolve_position ir pa = Some (p, Some l)"
  by (simp add: resolve_position_def primary_view_position_has_rects)

text \<open>
  Claim C32: the range loop concatenates the rects of all ranges that have
  a position, in range order and keeping the order within each range, and its page index is
  that of the last range with a position (the start value when there is none).
\<close>

theorem collect_ranges_spec:
  "collect_ranges rs page acc =
     (last (page # [pageIndex p. Some p \<leftarrow> map range_position rs]),
      acc @ concat [case rects p of None \<Rightarrow> [] | Some xs \<Rightarrow> xs. Some p \<leftarrow> map range_position rs])"
  using collect_ranges_page [of rs page acc] collect_ranges_rects [of rs page acc]
  by (metis prod.collapse)

text \<open>
  The specification's scenario: with no annotation selected and two selection
  ranges on page index 2 carrying \<open>[1,2,3,4]\<close> and \<open>[5,6,7,8]\<close>, the resolved
  position is page index 2 with both rectangles in order, and the page label is "3".
\<close>

theorem resolve_two_ranges_scenario:
  "resolve_position
     (Some \<lparr>ir_state = Some \<lparr>selectedAnnotationIDs = Some []\<rparr>,
            primaryView = Some \<lparr>selectionRanges = Some
              [\<lparr>range_position = Some \<lparr>pageIndex = Some 2, rects = Some [[1, 2, 3, 4]]\<rparr>\<rparr>,
               \<lparr>range_position = Some \<lparr>pageIndex = Some 2, rects = Some [[5, 6, 7, 8]]\<rparr>\<rparr>]\<rparr>,
            currentSelection = None, ir_selectedText = None\<rparr>) None =
   Some (\<lparr>pageIndex = Some 2, rects = Some [[1, 2, 3, 4], [5, 6, 7, 8]]\<rparr>, Some ''3'')"
  by (simp add: resolve_position_def tier_defs no_annotation_selected_def has_rects_def js_simps
      js_nat_string_def decimal_digits.simps)

text \<open>
  Claim C6: whenever neither the primary view nor the current selection
  yields a position, a cached annotation whose position carries a present but empty
  \<open>rects\<close> array is accepted (an empty array is truthy): the resolver returns that
  position without geometry, with its page label, where the specification's contract
  (the first usable selection source) reports that no geometry is available.
\<close>

theorem pending_empty_rects_accepted:
  assumes "primary_view_position ir = None" and "fst (current_selection_position ir) = None"
    and "sel_position a = Some p" and "rects p = Some []"
  shows "resolve_position ir (Some a) = Some (p, Some (js_int_string (js_or_zero (pageIndex p) + 1))) \<and>
         first_usable (selection_sources ir (Some a)) = None"
proof -
  obtain l where "current_selection_position ir = (None, l)"
    using assms(2) by (cases "current_selection_position ir") simp
  with assms show ?thesis
    by (simp add: resolve_position_def pending_position_def selection_sources_def usable_def has_rects_def)
qed

text \<open>
  Claim C33: when the current selection supplies the position, the
  page label comes from the selection object's own \<open>pageIndex\<close> property, not from its
  position's page index; when the selection has no such property there is no label, and the
  writer falls back to "1" (see \<open>Writer\<close>).
\<close>

theorem current_selection_label:
  "primary_view_position (Some r) = None \<Longrightarrow> currentSelection r = Some sel \<Longrightarrow>
   sel_position sel = Some p \<Longrightarrow> has_rects p \<Longrightarrow>
   resolve_position (Some r) pa =
     Some (p, case sel_pageIndex sel of None \<Rightarrow> None | Some n \<Rightarrow> Some (js_int_string (n + 1)))"
  by (simp add: resolve_position_def current_selection_position_def js_simps split: option.splits)

section \<open>Witnesses\<close>

theorem pending_empty_rects_accepted_witness:
  "primary_view_position None = None \<and> fst (current_selection_position None) = None \<and>
   sel_position \<lparr>sel_text = Some ''x'', sel_position = Some \<lparr>pageIndex = Some 4, rects = Some []\<rparr>,
     sel_pageIndex = None\<rparr> = Some \<lparr>pageIndex = Some 4, rects = Some []\<rparr> \<and>
   rects \<lparr>pageIndex = Some (4::int), rects = Some []\<rparr> = Some [] \<and>
   resolve_position None (Some \<lparr>sel_text = Some ''x'', sel_position = Some \<lparr>pageIndex = Some 4, rects = Some []\<rparr>,
     sel_pageIndex = None\<rparr>) =
     Some (\<lparr>pageIndex = Some 4, rects = Some []\<rparr>, Some (js_int_string (js_or_zero (Some 4) + 1))) \<and>
   first_usable (selection_sources None (Some \<lparr>sel_text = Some ''x'',
     sel_position = Some \<lparr>pageIndex = Some 4, rects = Some []\<rparr>, sel_pageIndex = None\<rparr>)) = None"
proof -
  have h: "primary_view_position None = None" "fst (current_selection_position None) = None"
    "sel_position \<lparr>sel_text = Some ''x'', sel_position = Some \<lparr>pageIndex = Some 4, rects = Some []\<rparr>,
       sel_pageIndex = None\<rparr> = Some \<lparr>pageIndex = Some 4, rects = Some []\<rparr>"
    "rects \<lparr>pageIndex = Some (4::int), rects = Some []\<rparr> = Some []"
    by (simp_all add: tier_defs)
  show ?thesis using h pending_empty_rects_accepted [OF h] by simp
qed

theorem resolve_position_refines_witness:
  "no_empty_pending (Some \<lparr>sel_text = None, sel_position = Some \<lparr>pageIndex = Some 1, rects = Some [[1, 2, 3, 4]]\<rparr>,
      sel_pageIndex = None\<rparr>) \<and>
   map_option fst (resolve_position None (Some \<lparr>sel_text = None,
      sel_position = Some \<lparr>pageIndex = Some 1, rects = Some [[1, 2, 3, 4]]\<rparr>, sel_pageIndex = None\<rparr>)) =
   first_usable (selection_sources None (Some \<lparr>sel_text = None,
      sel_position = Some \<lparr>pageIndex = Some 1, rects = Some [[1, 2, 3, 4]]\<rparr>, sel_pageIndex = None\<rparr>))"
proof -
  have h: "no_empty_pending (Some \<lparr>sel_text = None,
      sel_position = Some \<lparr>pageIndex = Some 1, rects = Some [[1, 2, 3, 4]]\<rparr>, sel_pageIndex = None\<rparr>)"
    by (simp add: no_empty_pending_def)
  show ?thesis using h resolve_position_refines [OF h, of None] by simp
qed

theorem resolve_primary_view_first_witness:
  "primary_view_position (Some \<lparr>ir_state = Some \<lparr>selectedAnnotationIDs = Some []\<rparr>,
      primaryView = Some \<lparr>selectionRanges = Some
        [\<lparr>range_position = Some \<lparr>pageIndex = Some 4, rects = Some [[1, 2, 3, 4]]\<rparr>\<rparr>]\<rparr>,
      currentSelection = None, ir_selectedText = None\<rparr>) =
     Some (\<lparr>pageIndex = Some 4, rects = Some [[1, 2, 3, 4]]\<rparr>, ''5'') \<and>
   resolve_position (Some \<lparr>ir_state = Some \<lparr>selectedAnnotationIDs = Some []\<rparr>,
      primaryView = Some \<lparr>selectionRanges = Some
        [\<lparr>range_position = Some \<lparr>pageIndex = Some 4, rects = Some [[1, 2, 3, 4]]\<rparr>\<rparr>]\<rparr>,
      currentSelection = None, ir_selectedText = None\<rparr>) None =
     Some (\<lparr>pageIndex = Some 4, rects = Some [[1, 2, 3, 4]]\<rparr>, Some ''5'')"
proof -
  have h: "primary_view_position (Some \<lparr>ir_state = Some \<lparr>selectedAnnotationIDs = Some []\<rparr>,
      primaryView = Some \<lparr>selectionRanges = Some
        [\<lparr>range_position = Some \<lparr>pageIndex = Some 4, rects = Some [[1, 2, 3, 4]]\<rparr>\<rparr>]\<rparr>,
      currentSelection = None, ir_selectedText = None\<rparr>) =
     Some (\<lparr>pageIndex = Some 4, rects = Some [[1, 2, 3, 4]]\<rparr>, ''5'')"
    by (simp add: primary_view_position_def no_annotation_selected_def js_simps js_nat_string_def
        decimal_digits.simps)
  show ?thesis using h resolve_primary_view_first [OF h] by simp
qed

theorem current_selection_label_witness:
  "primary_view_position (Some \<lparr>ir_state = None, primaryView = None,
      currentSelection = Some \<lparr>sel_text = None, sel_position = Some \<lparr>pageIndex = Some 6, rects = Some [[1, 2, 3, 4]]\<rparr>,
        sel_pageIndex = None\<rparr>, ir_selectedText = None\<rparr>) = None \<and>
   resolve_position (Some \<lparr>ir_state = None, primaryView = None,
      currentSelection = Some \<lparr>sel_text = None, sel_position = Some \<lparr>pageIndex = Some 6, rects = Some [[1, 2, 3, 4]]\<rparr>,
        sel_pageIndex = None\<rparr>, ir_selectedText = None\<rparr>) None =
     Some (\<lparr>pageIndex = Some 6, rects = Some [[1, 2, 3, 4]]\<rparr>, None)"
proof -
  have h: "primary_view_position (Some \<lparr>ir_state = None, primaryView = None,
      currentSelection = Some \<lparr>sel_text = None, sel_position = Some \<lparr>pageIndex = Some 6, rects = Some [[1, 2, 3, 4]]\<rparr>,
        sel_pageIndex = None\<rparr>, ir_selectedText = None\<rparr>) = None"
    by (simp add: primary_view_position_def no_annotation_selected_def)
  show ?thesis
    using h current_selection_label [OF h, of "\<lparr>sel_text = None,
        sel_position = Some \<lparr>pageIndex = Some 6, rects = Some [[1, 2, 3, 4]]\<rparr>, sel_pageIndex = None\<rparr>"
      "\<lparr>pageIndex = Some 6, rects = Some [[1, 2, 3, 4]]\<rparr>" None]
    by (simp add: has_rects_def)
qed

end
