(* ===== verification/Sort_Key.thy ===== *)
theory Sort_Key
  imports Resolver
begin

text \<open>
  The sort key of a new annotation, lines 243--249 of \<open>applySemanticColor\<close> in
  \<open>src/src/modules/semanticColoring.ts\<close>: the page index and the floored top-left corner
  of the first rectangle, each rendered with \<open>String\<close> and left-padded with zeros to
  5, 6 and 5 characters, joined by \<open>|\<close>. The lemmas show that for coordinates in the
  documented range the key's string order is the lexicographic order of
  \<open>(page, y, x)\<close> and that the key can be read back; the counterexamples show the
  order breaking outside that range, where the code neither rejects nor clamps.
\<close>

section \<open>Definitions\<close>

text \<open>The template literal of line 249.\<close>

definition format_sort_index :: "int \<Rightarrow> jsint \<Rightarrow> jsint \<Rightarrow> string" where
  "format_sort_index page yPos xPos =
     pad_start 5 CHR ''0'' (js_int_string page) @ ''|'' @
     pad_start 6 CHR ''0'' (js_string yPos) @ ''|'' @
     pad_start 5 CHR ''0'' (js_string xPos)"

text \<open>
  Lines 244--249. \<open>position.rects[0]\<close> on an absent \<open>rects\<close> throws a TypeError: \<open>None\<close>.
  An array is truthy even when empty, so \<open>firstRect ? \<dots> : 0\<close> gives 0 only when there is
  no first rectangle; a first rectangle shorter than two numbers gives NaN.
\<close>

definition compute_sort_index :: "position \<Rightarrow> string option" where
  "compute_sort_index position =
     (case rects position of
        None \<Rightarrow> None
      | Some rs \<Rightarrow>
          (let page = js_or_zero (pageIndex position);
               firstRect = js_index rs 0;
               yPos = (case firstRect of None \<Rightarrow> JInt 0 | Some r \<Rightarrow> js_floor (js_index r 1));
               xPos = (case firstRect of None \<Rightarrow> JInt 0 | Some r \<Rightarrow> js_floor (js_index r 0))
           in Some (format_sort_index page yPos xPos)))"

text \<open>Reading a key back: the value of a string of decimal digits, and the three fields.\<close>

definition digits_value :: "string \<Rightarrow> nat" where
  "digits_value s = foldl (\<lambda>acc c. 10 * acc + (of_char c - 48)) 0 s"

definition read_sort_index :: "string \<Rightarrow> (nat \<times> nat \<times> nat) option" where
  "read_sort_index s =
     (if length s = 18 \<and> s ! 5 = CHR ''|'' \<and> s ! 12 = CHR ''|''
      then Some (digits_value (take 5 s), digits_value (take 6 (drop 6 s)), digits_value (drop 13 s))
      else None)"

text \<open>The coordinates of a position whose first rectangle has at least two numbers.\<close>

definition key_fields :: "position \<Rightarrow> (int \<times> int \<times> int) option" where
  "key_fields p =
     (case rects p of
        Some (r # _) \<Rightarrow>
          if 2 \<le> length r then Some (js_or_zero (pageIndex p), \<lfloor>r ! 1\<rfloor>, \<lfloor>r ! 0\<rfloor>) else None
      | _ \<Rightarrow> None)"

definition in_key_range :: "int \<times> int \<times> int \<Rightarrow> bool" where
  "in_key_range f \<longleftrightarrow>
     (case f of (p, y, x) \<Rightarrow> 0 \<le> p \<and> p < 100000 \<and> 0 \<le> y \<and> y < 1000000 \<and> 0 \<le> x \<and> x < 100000)"

section \<open>Zero-padded fields\<close>

lemma pad_int_digits:
  "0 \<le> i \<Longrightarrow> i < 10 ^ k \<Longrightarrow> 0 < k \<Longrightarrow>
   pad_start k CHR ''0'' (js_int_string i) = map digit_chr (fixed_digits k (nat i))"
proof -
  assume "0 \<le> i" "i < 10 ^ k" "0 < k"
  then have "nat i < 10 ^ k" by (simp add: nat_less_iff)
  with \<open>0 \<le> i\<close> \<open>0 < k\<close> show ?thesis
    by (simp add: js_int_string_def pad_start_nat_string)
qed

lemma padded_less_iff:
  assumes "0 \<le> a" "a < 10 ^ k" "0 \<le> b" "b < 10 ^ k" "0 < k"
  shows "pad_start k CHR ''0'' (js_int_string a) < pad_start k CHR ''0'' (js_int_string b) \<longleftrightarrow> a < b"
proof -
  have n: "nat a < 10 ^ k" "nat b < 10 ^ k"
    using assms by (simp_all add: nat_less_iff)
  have "map digit_chr (fixed_digits k (nat a)) < map digit_chr (fixed_digits k (nat b))
        \<longleftrightarrow> fixed_digits k (nat a) < fixed_digits k (nat b)"
    by (rule map_less_map_mono) (auto intro!: digit_chr_less_iff dest: set_fixed_digits)
  with n assms show ?thesis
    by (simp add: pad_int_digits fixed_digits_less_iff, linarith)
qed

lemma padded_eq_iff:
  assumes "0 \<le> a" "a < 10 ^ k" "0 \<le> b" "b < 10 ^ k" "0 < k"
  shows "pad_start k CHR ''0'' (js_int_string a) = pad_start k CHR ''0'' (js_int_string b) \<longleftrightarrow> a = b"
  using padded_less_iff [OF assms] padded_less_iff [OF assms(3,4,1,2,5)]
  by (metis less_irrefl linorder_neqE)

lemma length_padded:
  "0 \<le> a \<Longrightarrow> a < 10 ^ k \<Longrightarrow> 0 < k \<Longrightarrow> length (pad_start k CHR ''0'' (js_int_string a)) = k"
  by (simp add: pad_int_digits length_fixed_digits)

lemma digits_value_fixed_digits:
  "digits_value (map digit_chr (fixed_digits k n)) = n mod 10 ^ k"
proof (induction k arbitrary: n)
  case 0
  then show ?case by (simp add: digits_value_def)
next
  case (Suc k)
  have "n mod 10 ^ Suc k = 10 * (n div 10 mod 10 ^ k) + n mod 10"
    by (simp add: mod_mult2_eq)
  with Suc.IH [of "n div 10"] show ?case
    by (simp add: digits_value_def of_char_digit_chr)
qed

lemma key_range_facts:
  assumes "in_key_range (p, y, x)"
  shows "length (pad_start 5 CHR ''0'' (js_int_string p)) = 5"
    "length (pad_start 6 CHR ''0'' (js_int_string y)) = 6"
    "length (pad_start 5 CHR ''0'' (js_int_string x)) = 5"
  using assms by (simp_all add: in_key_range_def length_padded)

lemma format_sort_index_less_iff:
  assumes a: "in_key_range (p1, y1, x1)" and b: "in_key_range (p2, y2, x2)"
  shows "format_sort_index p1 (JInt y1) (JInt x1) < format_sort_index p2 (JInt y2) (JInt x2) \<longleftrightarrow>
         (p1, y1, x1) < (p2, y2, x2)"
proof -
  have r: "0 \<le> p1" "p1 < 10 ^ 5" "0 \<le> y1" "y1 < 10 ^ 6" "0 \<le> x1" "x1 < 10 ^ 5"
    "0 \<le> p2" "p2 < 10 ^ 5" "0 \<le> y2" "y2 < 10 ^ 6" "0 \<le> x2" "x2 < 10 ^ 5"
    using a b by (simp_all add: in_key_range_def)
  show ?thesis
    using key_range_facts [OF a] key_range_facts [OF b]
    by (simp add: format_sort_index_def append_less_append_same_length less_prod_def
        padded_less_iff [OF r(1,2,7,8)] padded_eq_iff [OF r(1,2,7,8)]
        padded_less_iff [OF r(3,4,9,10)] padded_eq_iff [OF r(3,4,9,10)]
        padded_less_iff [OF r(5,6,11,12)], auto)
qed

text \<open>
  Claim C34: a key formatted from in-range fields has the fixed
  layout \<open>PPPPP|YYYYYY|XXXXX\<close> and reading its three fields back gives the page, y
  and x it was made from.
\<close>

theorem read_format_sort_index:
  assumes "in_key_range (p, y, x)"
  shows "read_sort_index (format_sort_index p (JInt y) (JInt x)) = Some (nat p, nat y, nat x)"
proof -
  have r: "0 \<le> p" "p < 10 ^ 5" "0 \<le> y" "y < 10 ^ 6" "0 \<le> x" "x < 10 ^ 5"
    using assms by (simp_all add: in_key_range_def)
  then have n: "nat p < 10 ^ 5" "nat y < 10 ^ 6" "nat x < 10 ^ 5"
    by (simp_all add: nat_less_iff)
  show ?thesis
    using r n
    by (simp add: format_sort_index_def read_sort_index_def pad_int_digits length_fixed_digits
        nth_append digits_value_fixed_digits)
qed

lemma compute_sort_index_fields:
  "key_fields P = Some (p, y, x) \<Longrightarrow> compute_sort_index P = Some (format_sort_index p (JInt y) (JInt x))"
  by (auto simp: key_fields_def compute_sort_index_def js_simps split: option.splits list.splits if_splits)

text \<open>
  Claim C4: for two positions whose first rectangle has at least
  two coordinates and whose page index and floored coordinates lie in the documented range
  (page below 100000, y below 1000000, x below 100000, none negative), the sort keys the
  code computes compare as plain strings exactly as the triples (page, y, x) compare
  lexicographically.
\<close>

theorem compute_sort_index_order:
  assumes "key_fields P1 = Some f1" "key_fields P2 = Some f2" "in_key_range f1" "in_key_range f2"
  shows "\<exists>k1 k2. compute_sort_index P1 = Some k1 \<and> compute_sort_index P2 = Some k2 \<and> (k1 < k2 \<longleftrightarrow> f1 < f2)"
  using assms compute_sort_index_fields format_sort_index_less_iff
  by (cases f1; cases f2) fastforce

text \<open>
  The specification's example: for page index 3 and a first rectangle starting at
  (12.7, 45.2) the code computes the key \<open>00003|000045|00012\<close>; the x field has five
  digits, where the specification's example shows six.
\<close>

theorem sort_index_spec_example:
  "compute_sort_index \<lparr>pageIndex = Some 3, rects = Some [[12.7, 45.2, 20, 50]]\<rparr> =
   Some ''00003|000045|00012''"
  by (simp add: compute_sort_index_def format_sort_index_def js_simps js_nat_string_def
      decimal_digits.simps)

lemma pad_negative_digit:
  "-10 < i \<Longrightarrow> i < 0 \<Longrightarrow>
   pad_start 6 CHR ''0'' (js_int_string i) = ''0000-'' @ [digit_chr (nat (- i))]"
  by (simp add: pad_start_def js_int_string_def js_nat_string_def decimal_digits_single js_simps)

lemma key_negative_y:
  "-10 < i \<Longrightarrow> i < 0 \<Longrightarrow>
   format_sort_index p (JInt i) xp =
     (pad_start 5 CHR ''0'' (js_int_string p) @ ''|0000-'') @ digit_chr (nat (- i)) # (''|'' @ pad_start 5 CHR ''0'' (js_string xp))"
  by (simp add: format_sort_index_def pad_negative_digit)

lemma js_string_six_digits:
  assumes "100000 \<le> x" "x < 1000000"
  shows "pad_start 5 CHR ''0'' (js_int_string x) =
           digit_chr (nat x div 100000) # map digit_chr (tl (decimal_digits (nat x)))"
proof -
  have lo: "10 ^ 5 \<le> nat x" and hi: "nat x < 10 ^ Suc 5" using assms by auto
  have "5 < length (decimal_digits (nat x))" using lo by (rule length_decimal_digits_lower)
  moreover have "hd (decimal_digits (nat x)) = nat x div 100000"
    using hd_decimal_digits [OF lo hi] by simp
  moreover have e: "js_int_string x = map digit_chr (decimal_digits (nat x))"
    using assms by (simp add: js_int_string_def js_nat_string_def)
  ultimately show ?thesis
    unfolding e by (cases "decimal_digits (nat x)") (simp_all add: pad_start_def)
qed

lemma key_six_digit_x:
  "100000 \<le> x \<Longrightarrow> x < 1000000 \<Longrightarrow>
   format_sort_index p yp (JInt x) =
     (pad_start 5 CHR ''0'' (js_int_string p) @ ''|'' @ pad_start 6 CHR ''0'' (js_string yp) @ ''|'') @
       digit_chr (nat x div 100000) # map digit_chr (tl (decimal_digits (nat x)))"
  by (simp add: format_sort_index_def js_string_six_digits)

text \<open>
  Claim C35: coordinates outside the documented range are neither guarded
  nor clamped, and their keys misorder whatever the other fields: every pair of one-digit
  negative y coordinates sorts in the reverse of their numeric order (y = -5 is rendered
  \<open>0000-5\<close>, after the \<open>0000-3\<close> of y = -3), and every x coordinate from 100000 to
  899999 gets a six-digit field that sorts before the five-digit field of x = 99999.
\<close>

theorem sort_index_out_of_range_misorder:
  "(\<forall>a b. -10 < a \<and> a < b \<and> b < 0 \<longrightarrow> format_sort_index p (JInt b) xp < format_sort_index p (JInt a) xp) \<and>
   (\<forall>x. 100000 \<le> x \<and> x < 900000 \<longrightarrow> format_sort_index p yp (JInt x) < format_sort_index p yp (JInt 99999))"
proof (intro conjI allI impI)
  fix a b :: int
  assume ab: "-10 < a \<and> a < b \<and> b < 0"
  then have dlt: "digit_chr (nat (- b)) < digit_chr (nat (- a))"
    using digit_chr_less_iff [of "nat (- b)" "nat (- a)"] by auto
  from ab have b1: "-10 < b" "b < 0" and a1: "-10 < a" "a < 0" by auto
  show "format_sort_index p (JInt b) xp < format_sort_index p (JInt a) xp"
    unfolding key_negative_y [OF b1] key_negative_y [OF a1] by (rule list_less_common_prefix [OF dlt])
next
  fix x :: int
  assume x: "100000 \<le> x \<and> x < 900000"
  then have "nat x div 100000 < 9" by linarith
  then have dlt: "digit_chr (nat x div 100000) < digit_chr 9"
    by (simp add: digit_chr_less_iff)
  have k9: "format_sort_index p yp (JInt 99999) =
      (pad_start 5 CHR ''0'' (js_int_string p) @ ''|'' @ pad_start 6 CHR ''0'' (js_string yp) @ ''|'') @
        digit_chr 9 # ''9999''"
    by (simp add: format_sort_index_def js_simps js_nat_string_def decimal_digits.simps)
  from x have x1: "100000 \<le> x" "x < 1000000" by auto
  show "format_sort_index p yp (JInt x) < format_sort_index p yp (JInt 99999)"
    unfolding key_six_digit_x [OF x1] k9 by (rule list_less_common_prefix [OF dlt])
qed

section \<open>Witnesses\<close>

theorem compute_sort_index_order_witness:
  "key_fields \<lparr>pageIndex = Some 1, rects = Some [[0, 5, 1, 1]]\<rparr> = Some (1, 5, 0) \<and>
   key_fields \<lparr>pageIndex = Some 1, rects = Some [[0, 10, 1, 1]]\<rparr> = Some (1, 10, 0) \<and>
   in_key_range (1, 5, 0) \<and> in_key_range (1, 10, 0) \<and>
   (\<exists>k1 k2. compute_sort_index \<lparr>pageIndex = Some 1, rects = Some [[0, 5, 1, 1]]\<rparr> = Some k1 \<and>
      compute_sort_index \<lparr>pageIndex = Some 1, rects = Some [[0, 10, 1, 1]]\<rparr> = Some k2 \<and>
      (k1 < k2 \<longleftrightarrow> (1 :: int, 5 :: int, 0 :: int) < (1, 10, 0)))"
proof -
  have h: "key_fields \<lparr>pageIndex = Some 1, rects = Some [[0, 5, 1, 1]]\<rparr> = Some (1, 5, 0)"
    "key_fields \<lparr>pageIndex = Some 1, rects = Some [[0, 10, 1, 1]]\<rparr> = Some (1, 10, 0)"
    "in_key_range (1, 5, 0)" "in_key_range (1, 10, 0)"
    by (simp_all add: key_fields_def in_key_range_def js_simps)
  show ?thesis
    using h compute_sort_index_order [OF h] by blast
qed

theorem read_format_sort_index_witness:
  "in_key_range (3, 45, 12) \<and>
   read_sort_index (format_sort_index 3 (JInt 45) (JInt 12)) = Some (3, 45, 12)"
proof -
  have h: "in_key_range (3, 45, 12)" by (simp add: in_key_range_def)
  show ?thesis using h read_format_sort_index [OF h] by simp
qed

theorem sort_index_out_of_range_misorder_witness:
  "(-10 < (-5::int) \<and> -5 < (-3::int) \<and> (-3::int) < 0 \<and>
    format_sort_index 0 (JInt (-3)) (JInt 0) < format_sort_index 0 (JInt (-5)) (JInt 0)) \<and>
   ((100000::int) \<le> 100000 \<and> (100000::int) < 900000 \<and>
    format_sort_index 0 (JInt 0) (JInt 100000) < format_sort_index 0 (JInt 0) (JInt 99999))"
proof -
  have h: "-10 < (-5::int) \<and> -5 < (-3::int) \<and> (-3::int) < 0"
    "(100000::int) \<le> 100000 \<and> (100000::int) < 900000" by simp_all
  show ?thesis
    using h sort_index_out_of_range_misorder [of 0 "JInt 0" "JInt 0"] by blast
qed

end
