(* ===== verification/Writer.thy ===== *)
theory Writer
  imports Registry Sort_Key
begin

text \<open>
  The annotation writer: \<open>applySemanticColor\<close> of \<open>src/src/modules/semanticColoring.ts\<close>
  (lines 140--281) as one function from the host state, the reader, the selected text, the
  category and the plugin's cached selection to the list of effects it performs, in order,
  and the new host state. Effects are log lines, user-visible error notifications, the
  saved annotation and the reader's refocus. Every early return and the \<open>catch\<close> block
  are branches of the definition; a thrown error is a \<open>string\<close> message.
  The host side (Zotero's item store and the transactional save) is not code of this
  repository: it is modelled from the specification as a store of annotation records whose
  save either appends the record or rejects with a message.
\<close>

section \<open>Host objects and plugin state\<close>

record reader =
  itemID :: "nat option"
  internalReader :: "internal_reader option"
  instanceID :: string

record item =
  item_id :: nat
  libraryID :: nat
  isPDFAttachment :: bool

text \<open>The fields the code sets on \<open>new Zotero.Item('annotation')\<close>.\<close>

record annotation_item =
  ann_libraryID :: nat
  parentID :: nat
  annotationType :: string
  annotationText :: "string option"
  annotationComment :: string
  annotationColor :: string
  annotationPosition :: position
  annotationPageLabel :: string
  annotationSortIndex :: string

text \<open>
  A thrown JavaScript \<open>Error\<close>: its \<open>name\<close> and its \<open>message\<close>. \<open>error_string\<close> is
  \<open>Error.prototype.toString\<close>, what a template literal \<open>${error}\<close> renders.
\<close>

record js_error =
  err_name :: string
  err_message :: string

definition error_string :: "js_error \<Rightarrow> string" where
  "error_string e =
     (if err_name e = [] then err_message e
      else if err_message e = [] then err_name e
      else err_name e @ '': '' @ err_message e)"

text \<open>
  The two TypeErrors the writer can raise, with the host engine's (Firefox's) messages:
  \<open>position.rects[0]\<close> on an absent \<open>rects\<close> (line 245), and
  \<open>selectedText.substring(0, 50)\<close> on an undefined text (line 268).
\<close>

definition rects_TypeError :: js_error where
  "rects_TypeError = \<lparr>err_name = ''TypeError'', err_message = ''position.rects is undefined''\<rparr>"

definition substring_undefined_message :: string where
  "substring_undefined_message =
     ''can't access property '' @ [CHR 0x22] @ ''substring'' @ [CHR 0x22] @ '', selectedText is undefined''"

definition substring_TypeError :: js_error where
  "substring_TypeError = \<lparr>err_name = ''TypeError'', err_message = substring_undefined_message\<rparr>"

record host =
  items :: "nat \<rightharpoonup> item"
  annotations :: "annotation_item list"
  save_failure :: "js_error option"

text \<open>\<open>addon.data.semanticColors\<close>: the process-wide selection cache.\<close>

record semantic_colors_data =
  selectedText :: "string option"
  pendingAnnotation :: "selection option"

datatype effect =
    Log string
  | Notify_error string
  | Saved annotation_item
  | Focus_reader
  | Hide_popup
  | Confirm_prompt

section \<open>The host's transactional save\<close>

text \<open>\<open>annotationItem.saveTx()\<close>: rejects with the host's message, or stores the record.\<close>

definition saveTx :: "host \<Rightarrow> annotation_item \<Rightarrow> js_error + host" where
  "saveTx h a =
     (case save_failure h of
        Some e \<Rightarrow> Inl e
      | None \<Rightarrow> Inr (h\<lparr>annotations := annotations h @ [a]\<rparr>))"

section \<open>The writer\<close>

text \<open>The record built at lines 251--262; \<open>pageLabel || '1'\<close> at line 260.\<close>

definition new_annotation_item ::
  "item \<Rightarrow> string option \<Rightarrow> semantic_color \<Rightarrow> position \<Rightarrow> string option \<Rightarrow> string \<Rightarrow>
   annotation_item" where
  "new_annotation_item it selText sc pos pageLabel sortIndex =
     \<lparr>ann_libraryID = libraryID it, parentID = item_id it,
      annotationType = ''highlight'', annotationText = selText,
      annotationComment = ''['' @ name sc @ '']'', annotationColor = color sc,
      annotationPosition = pos,
      annotationPageLabel = (case pageLabel of None \<Rightarrow> ''1'' | Some l \<Rightarrow> if l = [] then ''1'' else l),
      annotationSortIndex = sortIndex\<rparr>"

text \<open>
  The \<open>catch (error)\<close> block of lines 272--280: the log line renders \<open>${error}\<close>, the
  notification \<open>${error.message}\<close>.
\<close>

definition caught :: "js_error \<Rightarrow> effect list" where
  "caught e = [Log (''Error applying semantic color: '' @ error_string e),
               Notify_error (''Error applying color: '' @ err_message e)]"

text \<open>
  Lines 264--271 after a successful save: two log lines, then the log line whose template
  reads \<open>selectedText.substring(0, 50)\<close>, which throws when the text is \<open>undefined\<close>
  (the record is then already saved), then \<open>reader.focus()\<close>.
\<close>

definition after_save :: "string option \<Rightarrow> semantic_color \<Rightarrow> effect list" where
  \<open>after_save selText sc =
     [Log ''Annotation position'', Log ''Annotation created''] @
     (case selText of
        None \<Rightarrow> caught substring_TypeError
      | Some t \<Rightarrow>
          [Log (''Applied semantic color '' @ name sc @ '' ('' @ color sc @ '') to text: "'' @
                take 50 t @ ''..."''),
           Focus_reader])\<close>

definition applySemanticColor ::
  "host \<Rightarrow> reader option \<Rightarrow> string option \<Rightarrow> string \<Rightarrow> semantic_color \<Rightarrow> semantic_colors_data \<Rightarrow>
   effect list \<times> host" where
  "applySemanticColor h rd selText semanticKey sc data =
     (case rd of
        None \<Rightarrow> ([Log ''No active reader found or invalid item ID''], h)
      | Some r \<Rightarrow>
          (case itemID r of
             None \<Rightarrow> ([Log ''No active reader found or invalid item ID''], h)
           | Some iid \<Rightarrow>
               if iid = 0 then ([Log ''No active reader found or invalid item ID''], h)
               else (case items h iid of
                       None \<Rightarrow> ([Log ''Current item is not a PDF attachment''], h)
                     | Some it \<Rightarrow>
                         if \<not> isPDFAttachment it
                         then ([Log ''Current item is not a PDF attachment''], h)
                         else (case resolve_position (internalReader r) (pendingAnnotation data) of
                                 None \<Rightarrow> ([Notify_error ''Please select text in the PDF first''], h)
                               | Some (pos, lbl) \<Rightarrow>
                                   (case compute_sort_index pos of
                                      None \<Rightarrow> (caught rects_TypeError, h)
                                    | Some si \<Rightarrow>
                                        (let ann = new_annotation_item it selText sc pos lbl si in
                                         case saveTx h ann of
                                           Inl e \<Rightarrow> (caught e, h)
                                         | Inr h' \<Rightarrow> (Saved ann # after_save selText sc, h')))))))"

text \<open>The reader and item guards of lines 147--158, as one predicate.\<close>

definition writable_item :: "host \<Rightarrow> reader option \<Rightarrow> item option" where
  "writable_item h rd =
     (case rd of
        None \<Rightarrow> None
      | Some r \<Rightarrow>
          (case itemID r of
             None \<Rightarrow> None
           | Some iid \<Rightarrow>
               if iid = 0 then None
               else (case items h iid of
                       None \<Rightarrow> None
                     | Some it \<Rightarrow> if isPDFAttachment it then Some it else None)))"

section \<open>Sample host objects\<close>

text \<open>A PDF attachment with item ID 7 and a reader on it mid-selection on page index 2.\<close>

abbreviation sample_item :: item where
  "sample_item \<equiv> \<lparr>item_id = 7, libraryID = 1, isPDFAttachment = True\<rparr>"

abbreviation sample_host :: host where
  "sample_host \<equiv> \<lparr>items = [7 \<mapsto> sample_item], annotations = [], save_failure = None\<rparr>"

abbreviation sample_position :: position where
  "sample_position \<equiv> \<lparr>pageIndex = Some 2, rects = Some [[1, 2, 3, 4]]\<rparr>"

abbreviation sample_reader :: reader where
  "sample_reader \<equiv>
     \<lparr>itemID = Some 7,
      internalReader = Some \<lparr>ir_state = Some \<lparr>selectedAnnotationIDs = Some []\<rparr>,
        primaryView = Some \<lparr>selectionRanges = Some [\<lparr>range_position = Some sample_position\<rparr>]\<rparr>,
        currentSelection = None, ir_selectedText = None\<rparr>,
      instanceID = ''r1''\<rparr>"

abbreviation sample_data :: semantic_colors_data where
  "sample_data \<equiv> \<lparr>selectedText = Some ''key finding'', pendingAnnotation = None\<rparr>"

abbreviation insight :: semantic_color where
  "insight \<equiv> \<lparr>name = ''Insight'', color = ''#2ecc71'', description = ''Mark key insights or findings''\<rparr>"

section \<open>Lemmas\<close>

lemma applySemanticColor_eq:
  "applySemanticColor h rd selText k sc data =
     (case writable_item h rd of
        None \<Rightarrow> ([Log (if rd = None \<or> itemID (the rd) = None \<or> itemID (the rd) = Some 0
                      then ''No active reader found or invalid item ID''
                      else ''Current item is not a PDF attachment'')], h)
      | Some it \<Rightarrow>
          (case resolve_position (internalReader (the rd)) (pendingAnnotation data) of
             None \<Rightarrow> ([Notify_error ''Please select text in the PDF first''], h)
           | Some (pos, lbl) \<Rightarrow>
               (case compute_sort_index pos of
                  None \<Rightarrow> (caught rects_TypeError, h)
                | Some si \<Rightarrow>
                    (case saveTx h (new_annotation_item it selText sc pos lbl si) of
                       Inl e \<Rightarrow> (caught e, h)
                     | Inr h' \<Rightarrow> (Saved (new_annotation_item it selText sc pos lbl si) # after_save selText sc, h')))))"
  by (auto simp: applySemanticColor_def writable_item_def Let_def split: option.splits)

lemma compute_sort_index_resolved:
  "resolve_position ir pa = Some (pos, lbl) \<Longrightarrow> \<exists>si. compute_sort_index pos = Some si"
  by (auto simp: compute_sort_index_def Let_def dest!: resolve_position_rects)

lemma apply_saves_record:
  assumes "writable_item h (Some r) = Some it"
    and "resolve_position (internalReader r) (pendingAnnotation data) = Some (pos, lbl)"
    and "save_failure h = None"
  shows "\<exists>si. snd (applySemanticColor h (Some r) txt k sc data) =
     h\<lparr>annotations := annotations h @ [new_annotation_item it txt sc pos lbl si]\<rparr>"
proof -
  obtain si where "compute_sort_index pos = Some si"
    using compute_sort_index_resolved [OF assms(2)] by blast
  with assms show ?thesis
    by (auto simp: applySemanticColor_eq saveTx_def)
qed

text \<open>
  Claim C3: when the reader is on a PDF attachment, the resolver yields a
  position and the host accepts the save, the writer saves exactly the record built from the
  item, the text, the category, the position, the page label and the computed sort key,
  appends it to the host's store, logs, and refocuses the reader last.
\<close>

theorem apply_success:
  assumes "writable_item h (Some r) = Some it"
    and "resolve_position (internalReader r) (pendingAnnotation data) = Some (pos, lbl)"
    and "save_failure h = None"
  shows "\<exists>si. compute_sort_index pos = Some si \<and>
     applySemanticColor h (Some r) (Some t) k sc data =
       (Saved (new_annotation_item it (Some t) sc pos lbl si) #
          [Log ''Annotation position'', Log ''Annotation created'',
           Log (''Applied semantic color '' @ name sc @ '' ('' @ color sc @ '') to text: '' @ [CHR 0x22] @ take 50 t @ ''...'' @ [CHR 0x22]),
           Focus_reader],
        h\<lparr>annotations := annotations h @ [new_annotation_item it (Some t) sc pos lbl si]\<rparr>)"
proof -
  obtain si where si: "compute_sort_index pos = Some si"
    using compute_sort_index_resolved [OF assms(2)] by blast
  with assms show ?thesis
    by (simp add: applySemanticColor_eq saveTx_def after_save_def)
qed

text \<open>
  Claim C9: when no selection source yields geometry, the writer shows the
  error "Please select text in the PDF first" and saves nothing: the host is unchanged.
\<close>

theorem apply_no_geometry:
  "writable_item h (Some r) = Some it \<Longrightarrow> resolve_position (internalReader r) (pendingAnnotation data) = None \<Longrightarrow>
   applySemanticColor h (Some r) selText k sc data = ([Notify_error ''Please select text in the PDF first''], h)"
  by (simp add: applySemanticColor_eq)

text \<open>
  Claim C27: without a reader, with a missing or zero item ID, or on an item
  that is not a PDF attachment, the writer only writes one log line: it neither saves nor
  shows the user any message.
\<close>

theorem apply_unwritable:
  "writable_item h rd = None \<Longrightarrow>
   \<exists>msg. applySemanticColor h rd selText k sc data = ([Log msg], h)"
  by (simp add: applySemanticColor_eq)

text \<open>
  Claim C28: when the host rejects the save, the writer logs the error and
  shows "Error applying color: " followed by the host's message, and the host is unchanged.
\<close>

theorem apply_save_rejected:
  "writable_item h (Some r) = Some it \<Longrightarrow> resolve_position (internalReader r) (pendingAnnotation data) = Some (pos, lbl) \<Longrightarrow>
   save_failure h = Some e \<Longrightarrow>
   applySemanticColor h (Some r) selText k sc data =
     ([Log (''Error applying semantic color: '' @ error_string e), Notify_error (''Error applying color: '' @ err_message e)], h)"
  by (auto simp: applySemanticColor_eq saveTx_def caught_def dest!: compute_sort_index_resolved)

text \<open>
  Claim C24: when the selected text is undefined, the record is saved,
  and then the log line that reads the text throws: the user is shown an error although the
  annotation exists, and the reader is not refocused.
\<close>

theorem apply_text_undefined:
  "writable_item h (Some r) = Some it \<Longrightarrow> resolve_position (internalReader r) (pendingAnnotation data) = Some (pos, lbl) \<Longrightarrow>
   save_failure h = None \<Longrightarrow>
   \<exists>a. applySemanticColor h (Some r) None k sc data =
     ([Saved a, Log ''Annotation position'', Log ''Annotation created'',
       Log (''Error applying semantic color: TypeError: '' @ substring_undefined_message),
       Notify_error (''Error applying color: '' @ substring_undefined_message)],
      h\<lparr>annotations := annotations h @ [a]\<rparr>)"
  by (auto simp: applySemanticColor_eq saveTx_def caught_def after_save_def substring_TypeError_def
      error_string_def substring_undefined_message_def dest!: compute_sort_index_resolved)

text \<open>
  Claim C23: one activation leaves the host unchanged and reports no
  save, or appends exactly one record to the host's store and reports exactly that save.
\<close>

theorem apply_saves_at_most_once:
  "applySemanticColor h rd selText k sc data = (effs, h') \<Longrightarrow>
   (h' = h \<and> (\<forall>a. Saved a \<notin> set effs)) \<or>
   (\<exists>a. h' = h\<lparr>annotations := annotations h @ [a]\<rparr> \<and> filter (\<lambda>e. \<exists>b. e = Saved b) effs = [Saved a])"
  by (auto simp: applySemanticColor_eq saveTx_def caught_def after_save_def
      split: option.splits sum.splits prod.splits)

text \<open>
  The specification's scenario: applying the category "insight" on a reader mid-selection
  on page index 2 stores one highlight whose comment is "[Insight]", whose colour is
  "#2ecc71", whose page label is "3" and whose sort key is "00002|000002|00001".
\<close>

theorem apply_insight_scenario:
  "let h' = snd (applySemanticColor
     \<lparr>items = [7 \<mapsto> \<lparr>item_id = 7, libraryID = 1, isPDFAttachment = True\<rparr>], annotations = [], save_failure = None\<rparr>
     (Some \<lparr>itemID = Some 7, internalReader = Some \<lparr>ir_state = Some \<lparr>selectedAnnotationIDs = Some []\<rparr>,
            primaryView = Some \<lparr>selectionRanges = Some
              [\<lparr>range_position = Some \<lparr>pageIndex = Some 2, rects = Some [[1, 2, 3, 4]]\<rparr>\<rparr>]\<rparr>,
            currentSelection = None, ir_selectedText = None\<rparr>, instanceID = ''r1''\<rparr>)
     (Some ''key finding'') ''insight'' (the (map_of SEMANTIC_COLORS ''insight''))
     \<lparr>selectedText = Some ''key finding'', pendingAnnotation = None\<rparr>) in
   map annotationComment (annotations h') = [''[Insight]''] \<and> map annotationColor (annotations h') = [''#2ecc71'']
   \<and> map annotationSortIndex (annotations h') = [''00002|000002|00001''] \<and> map annotationPageLabel (annotations h') = [''3'']"
  by (simp add: applySemanticColor_def SEMANTIC_COLORS_def resolve_position_def tier_defs no_annotation_selected_def
      has_rects_def compute_sort_index_def format_sort_index_def new_annotation_item_def saveTx_def Let_def js_simps
      js_nat_string_def decimal_digits.simps)
lemma apply_store_cases:
  "applySemanticColor h rd selText k sc d = (effs, h') \<Longrightarrow>
   h' = h \<or> (\<exists>a. h' = h\<lparr>annotations := annotations h @ [a]\<rparr> \<and> annotationType a = ''highlight'' \<and>
      annotationColor a = color sc \<and> annotationComment a = ''['' @ name sc @ '']'')"
  by (auto simp: applySemanticColor_eq saveTx_def new_annotation_item_def
      split: option.splits sum.splits prod.splits)

lemma Saved_not_in_caught [simp]: "Saved a \<notin> set (caught e)"
  by (simp add: caught_def)

lemma Saved_not_in_after_save [simp]: "Saved a \<notin> set (after_save t sc)"
  by (simp add: after_save_def caught_def split: option.splits)

lemma apply_saved_record:
  assumes "applySemanticColor h rd txt k sc d = (effs, h')" and "Saved a \<in> set effs"
  shows "\<exists>r it pos lbl si. rd = Some r \<and> writable_item h rd = Some it \<and>
           resolve_position (internalReader r) (pendingAnnotation d) = Some (pos, lbl) \<and>
           compute_sort_index pos = Some si \<and> a = new_annotation_item it txt sc pos lbl si"
proof (cases "writable_item h rd")
  case None
  with assms show ?thesis by (auto simp: applySemanticColor_eq)
next
  case (Some it)
  then obtain r where r: "rd = Some r"
    by (cases rd) (simp_all add: writable_item_def)
  show ?thesis
  proof (cases "resolve_position (internalReader r) (pendingAnnotation d)")
    case None
    with assms Some r show ?thesis by (auto simp: applySemanticColor_eq)
  next
    case (Some pl)
    obtain pos lbl where pl: "pl = (pos, lbl)" by (cases pl)
    show ?thesis
    proof (cases "compute_sort_index pos")
      case None
      with assms \<open>writable_item h rd = Some it\<close> r Some pl show ?thesis
        by (auto simp: applySemanticColor_eq)
    next
      case (Some si)
      with assms \<open>writable_item h rd = Some it\<close> r \<open>resolve_position _ _ = Some pl\<close> pl show ?thesis
        by (auto simp: applySemanticColor_eq saveTx_def split: option.splits)
    qed
  qed
qed

section \<open>Witnesses\<close>

theorem apply_success_witness:
  "writable_item sample_host (Some sample_reader) = Some sample_item \<and>
   resolve_position (internalReader sample_reader) (pendingAnnotation sample_data) =
     Some (sample_position, Some ''3'') \<and>
   save_failure sample_host = None \<and>
   (\<exists>si. compute_sort_index sample_position = Some si \<and>
     applySemanticColor sample_host (Some sample_reader) (Some ''key finding'') ''insight'' insight sample_data =
       (Saved (new_annotation_item sample_item (Some ''key finding'') insight sample_position (Some ''3'') si) #
          [Log ''Annotation position'', Log ''Annotation created'',
           Log (''Applied semantic color '' @ name insight @ '' ('' @ color insight @ '') to text: '' @
                [CHR 0x22] @ take 50 ''key finding'' @ ''...'' @ [CHR 0x22]),
           Focus_reader],
        sample_host\<lparr>annotations := annotations sample_host @
          [new_annotation_item sample_item (Some ''key finding'') insight sample_position (Some ''3'') si]\<rparr>))"
proof -
  have h: "writable_item sample_host (Some sample_reader) = Some sample_item"
    "resolve_position (internalReader sample_reader) (pendingAnnotation sample_data) =
       Some (sample_position, Some ''3'')"
    "save_failure sample_host = None"
    by (simp_all add: writable_item_def resolve_position_def tier_defs no_annotation_selected_def
        has_rects_def js_simps js_nat_string_def decimal_digits.simps)
  show ?thesis
    using h apply_success [OF h, of "''key finding''" "''insight''" insight] by blast
qed

theorem apply_no_geometry_witness:
  "writable_item sample_host (Some (sample_reader\<lparr>internalReader := None\<rparr>)) = Some sample_item \<and>
   resolve_position (internalReader (sample_reader\<lparr>internalReader := None\<rparr>)) (pendingAnnotation sample_data) = None \<and>
   applySemanticColor sample_host (Some (sample_reader\<lparr>internalReader := None\<rparr>)) (Some ''t'') ''insight'' insight
     sample_data = ([Notify_error ''Please select text in the PDF first''], sample_host)"
proof -
  have h: "writable_item sample_host (Some (sample_reader\<lparr>internalReader := None\<rparr>)) = Some sample_item"
    "resolve_position (internalReader (sample_reader\<lparr>internalReader := None\<rparr>)) (pendingAnnotation sample_data) = None"
    by (simp_all add: writable_item_def resolve_position_def tier_defs)
  show ?thesis using h apply_no_geometry [OF h] by blast
qed

theorem apply_unwritable_witness:
  "writable_item sample_host None = None \<and>
   (\<exists>msg. applySemanticColor sample_host None (Some ''t'') ''insight'' insight sample_data = ([Log msg], sample_host))"
proof -
  have h: "writable_item sample_host None = None" by (simp add: writable_item_def)
  show ?thesis using h apply_unwritable [OF h] by blast
qed

theorem apply_save_rejected_witness:
  "writable_item (sample_host\<lparr>save_failure := Some \<lparr>err_name = ''Error'', err_message = ''database is locked''\<rparr>\<rparr>) (Some sample_reader) = Some sample_item \<and>
   resolve_position (internalReader sample_reader) (pendingAnnotation sample_data) =
     Some (sample_position, Some ''3'') \<and>
   save_failure (sample_host\<lparr>save_failure := Some \<lparr>err_name = ''Error'', err_message = ''database is locked''\<rparr>\<rparr>) = Some \<lparr>err_name = ''Error'', err_message = ''database is locked''\<rparr> \<and>
   applySemanticColor (sample_host\<lparr>save_failure := Some \<lparr>err_name = ''Error'', err_message = ''database is locked''\<rparr>\<rparr>) (Some sample_reader) (Some ''t'')
     ''insight'' insight sample_data =
     ([Log (''Error applying semantic color: '' @ error_string \<lparr>err_name = ''Error'', err_message = ''database is locked''\<rparr>),
       Notify_error (''Error applying color: '' @ err_message \<lparr>err_name = ''Error'', err_message = ''database is locked''\<rparr>)],
      sample_host\<lparr>save_failure := Some \<lparr>err_name = ''Error'', err_message = ''database is locked''\<rparr>\<rparr>)"
proof -
  have h: "writable_item (sample_host\<lparr>save_failure := Some \<lparr>err_name = ''Error'', err_message = ''database is locked''\<rparr>\<rparr>) (Some sample_reader) = Some sample_item"
    "resolve_position (internalReader sample_reader) (pendingAnnotation sample_data) =
       Some (sample_position, Some ''3'')"
    "save_failure (sample_host\<lparr>save_failure := Some \<lparr>err_name = ''Error'', err_message = ''database is locked''\<rparr>\<rparr>) = Some \<lparr>err_name = ''Error'', err_message = ''database is locked''\<rparr>"
    by (simp_all add: writable_item_def resolve_position_def tier_defs no_annotation_selected_def
        has_rects_def js_simps js_nat_string_def decimal_digits.simps)
  show ?thesis using h apply_save_rejected [OF h] by blast
qed

theorem apply_text_undefined_witness:
  "writable_item sample_host (Some sample_reader) = Some sample_item \<and>
   resolve_position (internalReader sample_reader) (pendingAnnotation sample_data) =
     Some (sample_position, Some ''3'') \<and>
   save_failure sample_host = None \<and>
   (\<exists>a. applySemanticColor sample_host (Some sample_reader) None ''insight'' insight sample_data =
     ([Saved a, Log ''Annotation position'', Log ''Annotation created'',
       Log (''Error applying semantic color: TypeError: '' @ substring_undefined_message),
       Notify_error (''Error applying color: '' @ substring_undefined_message)],
      sample_host\<lparr>annotations := annotations sample_host @ [a]\<rparr>))"
proof -
  have h: "writable_item sample_host (Some sample_reader) = Some sample_item"
    "resolve_position (internalReader sample_reader) (pendingAnnotation sample_data) =
       Some (sample_position, Some ''3'')"
    "save_failure sample_host = None"
    by (simp_all add: writable_item_def resolve_position_def tier_defs no_annotation_selected_def
        has_rects_def js_simps js_nat_string_def decimal_digits.simps)
  show ?thesis using h apply_text_undefined [OF h, of "''insight''" insight] by blast
qed

theorem apply_saves_at_most_once_witness:
  "applySemanticColor sample_host None (Some ''t'') ''insight'' insight sample_data = ([Log ''No active reader found or invalid item ID''], sample_host) \<and>
   ((sample_host = sample_host \<and> (\<forall>a. Saved a \<notin> set [Log ''No active reader found or invalid item ID''])) \<or>
    (\<exists>a. sample_host = sample_host\<lparr>annotations := annotations sample_host @ [a]\<rparr> \<and>
       filter (\<lambda>e. \<exists>b. e = Saved b) [Log ''No active reader found or invalid item ID''] = [Saved a]))"
proof -
  have h: "applySemanticColor sample_host None (Some ''t'') ''insight'' insight sample_data =
      ([Log ''No active reader found or invalid item ID''], sample_host)"
    by (simp add: applySemanticColor_def)
  show ?thesis using h apply_saves_at_most_once [OF h] by blast
qed

end
