(* ===== verification/Popup.thy ===== *)
theory Popup
  imports Writer
begin

text \<open>
  The presentation side: \<open>buildSemanticColoringPopup\<close> of
  \<open>src/src/modules/semanticColoring.ts\<close> (lines 283--386), the \<open>renderTextSelectionPopup\<close>
  listener registered in \<open>onMainWindowLoad\<close> of \<open>src/src/hooks.ts\<close> (lines 33--55), and
  the command-palette prompt of \<open>registerSemanticColoringPrompt\<close> (lines 43--138). The popup
  handler writes the selection cache and returns one button per category; a button is the
  data its click closure captures (reader, category, popup element), and clicking it runs
  the writer with the cache as it is at click time. The DOM building and styling are not
  modelled beyond the button's identifier and text colour.
\<close>

section \<open>Popup events and buttons\<close>

text \<open>
  The event of \<open>renderTextSelectionPopup\<close>: its reader, \<open>params.annotation\<close>, and whether
  \<open>doc.querySelector(".selection-popup")\<close> finds the popup element.
\<close>

record popup_event =
  ev_reader :: reader
  ev_annotation :: "selection option"
  ev_has_popup :: bool

record semantic_button =
  btn_id :: string
  btn_key :: string
  btn_color :: semantic_color
  btn_text_color :: string
  btn_reader :: reader
  btn_popup :: bool

section \<open>buildSemanticColoringPopup\<close>

text \<open>
  Lines 295--303 (and 309--316 for the current selection): a truthy text overwrites the
  cached text, a present position makes the whole object the pending annotation.
\<close>

definition capture_selection :: "selection \<Rightarrow> semantic_colors_data \<Rightarrow> semantic_colors_data" where
  "capture_selection a d =
     (let d1 = (case sel_text a of
                  None \<Rightarrow> d
                | Some t \<Rightarrow> if t \<noteq> [] then d\<lparr>selectedText := Some t\<rparr> else d)
      in case sel_position a of
           None \<Rightarrow> d1
         | Some _ \<Rightarrow> d1\<lparr>pendingAnnotation := Some a\<rparr>)"

text \<open>Lines 293--318: the event's annotation, or else the reader's current selection.\<close>

definition capture_from_event :: "popup_event \<Rightarrow> semantic_colors_data \<Rightarrow> semantic_colors_data" where
  "capture_from_event ev d =
     (case ev_annotation ev of
        Some a \<Rightarrow> capture_selection a d
      | None \<Rightarrow>
          (case internalReader (ev_reader ev) of
             None \<Rightarrow> d
           | Some ir \<Rightarrow>
               (case currentSelection ir of
                  None \<Rightarrow> d
                | Some cs \<Rightarrow> capture_selection cs d)))"

text \<open>Lines 345--379: one button per entry of \<open>Object.entries(SEMANTIC_COLORS)\<close>.\<close>

definition semantic_buttons :: "popup_event \<Rightarrow> semantic_button list" where
  "semantic_buttons ev =
     map (\<lambda>(key, sc).
            \<lparr>btn_id = ''semantic-color-'' @ key @ ''-'' @ instanceID (ev_reader ev),
             btn_key = key, btn_color = sc, btn_text_color = getContrastColor (color sc),
             btn_reader = ev_reader ev, btn_popup = ev_has_popup ev\<rparr>)
       SEMANTIC_COLORS"

definition buildSemanticColoringPopup ::
  "popup_event \<Rightarrow> semantic_colors_data \<Rightarrow> semantic_colors_data \<times> semantic_button list" where
  "buildSemanticColoringPopup ev d = (capture_from_event ev d, semantic_buttons ev)"

text \<open>
  The click listener of lines 366--377: \<open>applySemanticColor\<close> with the reader captured at
  build time and \<open>addon.data.semanticColors.selectedText\<close> read now, then the popup is
  hidden if it was found.
\<close>

definition click_semantic_button ::
  "host \<Rightarrow> semantic_button \<Rightarrow> semantic_colors_data \<Rightarrow> effect list \<times> host" where
  "click_semantic_button h b d =
     (case applySemanticColor h (Some (btn_reader b)) (selectedText d) (btn_key b) (btn_color b) d of
        (effs, h') \<Rightarrow> (effs @ (if btn_popup b then [Hide_popup] else []), h'))"

section \<open>The event listener of hooks.ts\<close>

text \<open>
  Lines 34--46 and \<open>onReaderPopupShow\<close> (lines 49--55): a truthy annotation text is
  stored trimmed, then the popup is built.
\<close>

definition onTextSelectionPopup ::
  "popup_event \<Rightarrow> semantic_colors_data \<Rightarrow> semantic_colors_data \<times> semantic_button list" where
  "onTextSelectionPopup ev d =
     (let d1 = (case ev_annotation ev of
                  None \<Rightarrow> d
                | Some a \<Rightarrow>
                    (case sel_text a of
                       None \<Rightarrow> d
                     | Some t \<Rightarrow> if t \<noteq> [] then d\<lparr>selectedText := Some (js_trim t)\<rparr> else d))
      in buildSemanticColoringPopup ev d1)"

section \<open>The command prompt\<close>

text \<open>
  \<open>addon.data.semanticColors.selectedText || reader._internalReader?.selectedText || ""\<close>
  (lines 55--57 and 69--71).
\<close>

definition prompt_text :: "semantic_colors_data \<Rightarrow> reader option \<Rightarrow> string" where
  "prompt_text d rd =
     js_str_or (selectedText d)
       (js_str_or (case rd of
                     None \<Rightarrow> None
                   | Some r \<Rightarrow> (case internalReader r of None \<Rightarrow> None | Some ir \<Rightarrow> ir_selectedText ir))
          [])"

text \<open>The \<open>when\<close> predicate (lines 49--59).\<close>

definition prompt_when :: "semantic_colors_data \<Rightarrow> reader option \<Rightarrow> bool" where
  "prompt_when d rd = (rd \<noteq> None \<and> prompt_text d rd \<noteq> [])"

record prompt_button =
  pb_key :: string
  pb_color :: semantic_color
  pb_text :: string
  pb_reader :: "reader option"

text \<open>
  The \<open>callback\<close> (lines 60--107): the text is read once, when the prompt is built, and
  every button's closure keeps it.
\<close>

definition prompt_buttons :: "semantic_colors_data \<Rightarrow> reader option \<Rightarrow> prompt_button list" where
  "prompt_buttons d rd =
     map (\<lambda>(key, sc). \<lparr>pb_key = key, pb_color = sc, pb_text = prompt_text d rd, pb_reader = rd\<rparr>)
       SEMANTIC_COLORS"

text \<open>A category button's \<open>onclick\<close> (lines 99--102): apply, then \<open>prompt.confirm()\<close>.\<close>

definition prompt_click :: "host \<Rightarrow> prompt_button \<Rightarrow> semantic_colors_data \<Rightarrow> effect list \<times> host" where
  "prompt_click h b d =
     (case applySemanticColor h (pb_reader b) (Some (pb_text b)) (pb_key b) (pb_color b) d of
        (effs, h') \<Rightarrow> (effs @ [Confirm_prompt], h'))"

text \<open>
  The prompt's container as it is filled (lines 75--134): the document is
  \<open>container.ownerDocument || prompt.inputNode.ownerDocument\<close>, the same in every
  iteration, so either every colour button and the cancel button are appended, in this
  order, or none is.
\<close>

datatype prompt_entry =
    Category_entry prompt_button
  | Cancel_entry

definition prompt_entries :: "bool \<Rightarrow> semantic_colors_data \<Rightarrow> reader option \<Rightarrow> prompt_entry list" where
  "prompt_entries has_doc d rd =
     (if has_doc then map Category_entry (prompt_buttons d rd) @ [Cancel_entry] else [])"

text \<open>An entry's \<open>onclick\<close>: a colour button (lines 99--102), or cancel (lines 124--126).\<close>

definition prompt_entry_click :: "host \<Rightarrow> prompt_entry \<Rightarrow> semantic_colors_data \<Rightarrow> effect list \<times> host" where
  "prompt_entry_click h e d =
     (case e of
        Category_entry b \<Rightarrow> prompt_click h b d
      | Cancel_entry \<Rightarrow> ([Confirm_prompt], h))"

section \<open>Lemmas\<close>

lemma onTextSelectionPopup_capture:
  "onTextSelectionPopup ev d = (capture_from_event ev d, semantic_buttons ev)"
  by (auto simp: onTextSelectionPopup_def buildSemanticColoringPopup_def capture_from_event_def
      capture_selection_def Let_def split: option.splits)

lemma capture_from_event_cases:
  "capture_from_event ev d = d \<or> (\<exists>a. capture_from_event ev d = capture_selection a d)"
  by (auto simp: capture_from_event_def split: option.splits)

text \<open>
  Claim C22: the listener of hooks.ts stores the trimmed annotation
  text, but the popup builder it then calls stores the untrimmed text over it whenever the
  text is non-empty: the listener behaves exactly as the popup builder alone, and its trim
  has no effect.
\<close>

theorem hooks_trim_overwritten:
  "onTextSelectionPopup ev d = buildSemanticColoringPopup ev d"
  by (auto simp: onTextSelectionPopup_def buildSemanticColoringPopup_def capture_from_event_def
      capture_selection_def Let_def split: option.splits)

text \<open>
  Claim C29: the popup offers one button per registry entry, in the
  registry's declaration order, each bound to its own key and category and to the event's
  reader.
\<close>

theorem popup_buttons_registry:
  "map (\<lambda>b. (btn_key b, btn_color b)) (snd (buildSemanticColoringPopup ev d)) = SEMANTIC_COLORS \<and>
   list_all (\<lambda>b. btn_reader b = ev_reader ev) (snd (buildSemanticColoringPopup ev d))"
  by (simp add: buildSemanticColoringPopup_def semantic_buttons_def comp_def case_prod_beta list_all_iff)

text \<open>
  Claim C30: a popup event whose annotation carries a non-empty text and a
  position overwrites both cache slots with them, whatever the cache held before
  (last write wins).
\<close>

theorem capture_annotation:
  "ev_annotation ev = Some a \<Longrightarrow> sel_text a = Some t \<Longrightarrow> t \<noteq> [] \<Longrightarrow> sel_position a = Some p \<Longrightarrow>
   fst (buildSemanticColoringPopup ev d) = \<lparr>selectedText = Some t, pendingAnnotation = Some a\<rparr>"
  by (simp add: buildSemanticColoringPopup_def capture_from_event_def capture_selection_def)

text \<open>
  Claim C31: a popup event without an annotation captures from the
  reader's current selection instead, by the same rules.
\<close>

theorem capture_current_selection:
  "ev_annotation ev = None \<Longrightarrow> internalReader (ev_reader ev) = Some ir \<Longrightarrow> currentSelection ir = Some cs \<Longrightarrow>
   sel_text cs = Some t \<Longrightarrow> t \<noteq> [] \<Longrightarrow>
   fst (buildSemanticColoringPopup ev d) =
     \<lparr>selectedText = Some t,
      pendingAnnotation = (case sel_position cs of None \<Rightarrow> pendingAnnotation d | Some _ \<Rightarrow> Some cs)\<rparr>"
  by (cases d) (simp add: buildSemanticColoringPopup_def capture_from_event_def capture_selection_def
      split: option.splits)

lemma capture_selection_cases:
  "capture_selection a d =
     \<lparr>selectedText = (case sel_text a of Some t \<Rightarrow> if t \<noteq> [] then Some t else selectedText d | None \<Rightarrow> selectedText d),
      pendingAnnotation = (case sel_position a of Some _ \<Rightarrow> Some a | None \<Rightarrow> pendingAnnotation d)\<rparr>"
  by (cases d) (simp add: capture_selection_def split: option.splits)

text \<open>
  The command prompt is offered exactly when there is an active
  reader and either the cached selected text or the reader's own selected text is non-empty.
\<close>

theorem prompt_when_iff:
  "prompt_when d (Some r) \<longleftrightarrow>
     (case selectedText d of Some t \<Rightarrow> t \<noteq> [] | None \<Rightarrow> False) \<or>
     (case internalReader r of None \<Rightarrow> False | Some ir \<Rightarrow> (case ir_selectedText ir of None \<Rightarrow> False | Some t \<Rightarrow> t \<noteq> []))"
  by (simp add: prompt_when_def prompt_text_def js_str_or_def split: option.splits)
section \<open>Witnesses\<close>

theorem capture_annotation_witness:
  "ev_annotation \<lparr>ev_reader = sample_reader,
      ev_annotation = Some \<lparr>sel_text = Some ''abc'', sel_position = Some sample_position, sel_pageIndex = None\<rparr>,
      ev_has_popup = True\<rparr> =
     Some \<lparr>sel_text = Some ''abc'', sel_position = Some sample_position, sel_pageIndex = None\<rparr> \<and>
   sel_text \<lparr>sel_text = Some ''abc'', sel_position = Some sample_position, sel_pageIndex = None\<rparr> = Some ''abc'' \<and>
   ''abc'' \<noteq> [] \<and>
   sel_position \<lparr>sel_text = Some ''abc'', sel_position = Some sample_position, sel_pageIndex = None\<rparr> =
     Some sample_position \<and>
   fst (buildSemanticColoringPopup \<lparr>ev_reader = sample_reader,
      ev_annotation = Some \<lparr>sel_text = Some ''abc'', sel_position = Some sample_position, sel_pageIndex = None\<rparr>,
      ev_has_popup = True\<rparr> sample_data) =
     \<lparr>selectedText = Some ''abc'',
      pendingAnnotation = Some \<lparr>sel_text = Some ''abc'', sel_position = Some sample_position, sel_pageIndex = None\<rparr>\<rparr>"
  using capture_annotation [of "\<lparr>ev_reader = sample_reader,
      ev_annotation = Some \<lparr>sel_text = Some ''abc'', sel_position = Some sample_position, sel_pageIndex = None\<rparr>,
      ev_has_popup = True\<rparr>" "\<lparr>sel_text = Some ''abc'', sel_position = Some sample_position, sel_pageIndex = None\<rparr>"
      "''abc''" sample_position sample_data]
  by simp

theorem capture_current_selection_witness:
  "ev_annotation \<lparr>ev_reader = sample_reader\<lparr>internalReader := Some \<lparr>ir_state = None, primaryView = None,
        currentSelection = Some \<lparr>sel_text = Some ''xy'', sel_position = None, sel_pageIndex = None\<rparr>,
        ir_selectedText = None\<rparr>\<rparr>, ev_annotation = None, ev_has_popup = False\<rparr> = None \<and>
   fst (buildSemanticColoringPopup \<lparr>ev_reader = sample_reader\<lparr>internalReader := Some \<lparr>ir_state = None,
        primaryView = None,
        currentSelection = Some \<lparr>sel_text = Some ''xy'', sel_position = None, sel_pageIndex = None\<rparr>,
        ir_selectedText = None\<rparr>\<rparr>, ev_annotation = None, ev_has_popup = False\<rparr> sample_data) =
     \<lparr>selectedText = Some ''xy'', pendingAnnotation = None\<rparr>"
  using capture_current_selection [of "\<lparr>ev_reader = sample_reader\<lparr>internalReader := Some \<lparr>ir_state = None,
        primaryView = None,
        currentSelection = Some \<lparr>sel_text = Some ''xy'', sel_position = None, sel_pageIndex = None\<rparr>,
        ir_selectedText = None\<rparr>\<rparr>, ev_annotation = None, ev_has_popup = False\<rparr>" _
      "\<lparr>sel_text = Some ''xy'', sel_position = None, sel_pageIndex = None\<rparr>" "''xy''" sample_data]
  by simp

end
