(* ===== verification/Event_Loop.thy ===== *)
theory Event_Loop
  imports Popup
begin

text \<open>
  The plugin at run time: the host fires text-selection popup events, each handled by the
  listener of \<open>src/src/hooks.ts\<close>, which overwrites the selection cache and renders a popup
  of category buttons; the user clicks a button of any popup rendered so far, which runs the
  writer against the host and the cache as they are at that moment. The event loop is single
  threaded, so a session is a sequence of these two kinds of steps on one state record:
  the cache (\<open>addon.data.semanticColors\<close>), the host store, the rendered popups and the
  effects performed so far. The reachable sessions from a given host are an inductive set;
  the invariants are proved by rule induction over it.
\<close>

section \<open>Sessions and events\<close>

record session =
  cache :: semantic_colors_data
  store :: host
  popups :: "semantic_button list list"
  trace :: "effect list"

datatype event =
    Selection_popup popup_event
  | Click_button nat nat

text \<open>\<open>addon.data.semanticColors\<close> when the plugin starts: nothing captured yet.\<close>

definition initial_cache :: semantic_colors_data where
  "initial_cache = \<lparr>selectedText = None, pendingAnnotation = None\<rparr>"

definition init_session :: "host \<Rightarrow> session" where
  "init_session h = \<lparr>cache = initial_cache, store = h, popups = [], trace = []\<rparr>"

text \<open>A click on button \<open>j\<close> of popup \<open>i\<close>; a click on no button does nothing.\<close>

fun session_step :: "session \<Rightarrow> event \<Rightarrow> session" where
  "session_step s (Selection_popup ev) =
     (case onTextSelectionPopup ev (cache s) of
        (d, bs) \<Rightarrow> s\<lparr>cache := d, popups := popups s @ [bs]\<rparr>)"
| "session_step s (Click_button i j) =
     (if i < length (popups s) \<and> j < length (popups s ! i)
      then (case click_semantic_button (store s) (popups s ! i ! j) (cache s) of
              (effs, h') \<Rightarrow> s\<lparr>store := h', trace := trace s @ effs\<rparr>)
      else s)"

fun run_events :: "session \<Rightarrow> event list \<Rightarrow> session" where
  "run_events s [] = s"
| "run_events s (e # es) = run_events (session_step s e) es"

inductive reachable :: "host \<Rightarrow> session \<Rightarrow> bool" for h0 :: host where
  start: "reachable h0 (init_session h0)"
| step: "reachable h0 s \<Longrightarrow> reachable h0 (session_step s e)"

text \<open>A popup event on a reader of item 7 without internal selection state.\<close>

abbreviation plain_reader :: reader where
  "plain_reader \<equiv> \<lparr>itemID = Some 7, internalReader = None, instanceID = ''r1''\<rparr>"

abbreviation sample_selection :: "string option \<Rightarrow> position \<Rightarrow> selection" where
  "sample_selection t p \<equiv> \<lparr>sel_text = t, sel_position = Some p, sel_pageIndex = None\<rparr>"

abbreviation sample_event :: "string option \<Rightarrow> position \<Rightarrow> popup_event" where
  "sample_event t p \<equiv> \<lparr>ev_reader = plain_reader, ev_annotation = Some (sample_selection t p), ev_has_popup = True\<rparr>"


section \<open>Invariants\<close>

definition cache_ok :: "semantic_colors_data \<Rightarrow> bool" where
  "cache_ok d \<longleftrightarrow>
     (case selectedText d of None \<Rightarrow> True | Some t \<Rightarrow> t \<noteq> []) \<and>
     (case pendingAnnotation d of None \<Rightarrow> True | Some a \<Rightarrow> sel_position a \<noteq> None)"

definition category_record :: "annotation_item \<Rightarrow> bool" where
  "category_record a \<longleftrightarrow>
     annotationType a = ''highlight'' \<and>
     list_ex (\<lambda>(k, sc). annotationColor a = color sc \<and> annotationComment a = ''['' @ name sc @ '']'')
       SEMANTIC_COLORS"

text \<open>A button bound to a category of the registry, key and category together.\<close>

definition registry_button :: "semantic_button \<Rightarrow> bool" where
  "registry_button b \<longleftrightarrow> (btn_key b, btn_color b) \<in> set SEMANTIC_COLORS"

definition session_ok :: "host \<Rightarrow> session \<Rightarrow> bool" where
  "session_ok h0 s \<longleftrightarrow>
     cache_ok (cache s) \<and> items (store s) = items h0 \<and> save_failure (store s) = save_failure h0 \<and>
     (\<exists>new. annotations (store s) = annotations h0 @ new \<and> list_all category_record new) \<and>
     list_all (list_all registry_button) (popups s)"

section \<open>Lemmas\<close>

lemma capture_selection_cache_ok:
  "cache_ok d \<Longrightarrow> cache_ok (capture_selection a d)"
  by (auto simp: cache_ok_def capture_selection_cases split: option.splits)

lemma capture_from_event_cache_ok:
  "cache_ok d \<Longrightarrow> cache_ok (capture_from_event ev d)"
  using capture_from_event_cases [of ev d] capture_selection_cache_ok by metis

lemma click_store_cases:
  assumes "click_semantic_button h b d = (effs, h')"
  shows "h' = h \<or> (\<exists>a. h' = h\<lparr>annotations := annotations h @ [a]\<rparr> \<and> annotationType a = ''highlight'' \<and>
           annotationColor a = color (btn_color b) \<and> annotationComment a = ''['' @ name (btn_color b) @ '']'')"
  using assms apply_store_cases [of h "Some (btn_reader b)" "selectedText d" "btn_key b" "btn_color b" d]
  by (auto simp: click_semantic_button_def split: prod.splits)

lemma category_record_registry:
  "(k, sc) \<in> set SEMANTIC_COLORS \<Longrightarrow> annotationType a = ''highlight'' \<Longrightarrow> annotationColor a = color sc \<Longrightarrow>
   annotationComment a = ''['' @ name sc @ '']'' \<Longrightarrow> category_record a"
  by (auto simp: category_record_def list_ex_iff)

lemma semantic_buttons_registry [simp]:
  "list_all registry_button (semantic_buttons ev)"
  by (simp add: semantic_buttons_def registry_button_def list_all_iff case_prod_beta)

lemma session_ok_add_popup:
  "session_ok h0 s \<Longrightarrow> cache_ok d \<Longrightarrow> list_all registry_button bs \<Longrightarrow>
   session_ok h0 (s\<lparr>cache := d, popups := popups s @ [bs]\<rparr>)"
  by (simp add: session_ok_def)

lemma session_step_ok:
  assumes ok: "session_ok h0 s"
  shows "session_ok h0 (session_step s e)"
proof (cases e)
  case (Selection_popup ev)
  from ok have "cache_ok (capture_from_event ev (cache s))"
    by (simp add: session_ok_def capture_from_event_cache_ok)
  with ok Selection_popup show ?thesis
    by (simp add: onTextSelectionPopup_capture session_ok_add_popup)
next
  case (Click_button i j)
  show ?thesis
  proof (cases "i < length (popups s) \<and> j < length (popups s ! i)")
    case False
    with ok Click_button show ?thesis by auto
  next
    case True
    let ?b = "popups s ! i ! j"
    obtain effs h' where c: "click_semantic_button (store s) ?b (cache s) = (effs, h')"
      by (cases "click_semantic_button (store s) ?b (cache s)")
    from ok True have reg: "(btn_key ?b, btn_color ?b) \<in> set SEMANTIC_COLORS"
      by (simp add: session_ok_def list_all_length registry_button_def)
    from click_store_cases [OF c] show ?thesis
    proof
      assume "h' = store s"
      with ok True c Click_button show ?thesis by (simp add: session_ok_def)
    next
      assume "\<exists>a. h' = (store s)\<lparr>annotations := annotations (store s) @ [a]\<rparr> \<and>
        annotationType a = ''highlight'' \<and> annotationColor a = color (btn_color ?b) \<and>
        annotationComment a = ''['' @ name (btn_color ?b) @ '']''"
      then obtain a where h': "h' = (store s)\<lparr>annotations := annotations (store s) @ [a]\<rparr>"
        and ty: "annotationType a = ''highlight''" and co: "annotationColor a = color (btn_color ?b)"
        and cm: "annotationComment a = ''['' @ name (btn_color ?b) @ '']''"
        by blast
      from reg ty co cm have ca: "category_record a"
        by (rule category_record_registry)
      from ok obtain new where "annotations (store s) = annotations h0 @ new"
        and "list_all category_record new"
        by (auto simp: session_ok_def)
      with ok True c Click_button h' ca show ?thesis
        by (auto simp: session_ok_def intro!: exI [of _ "new @ [a]"])
    qed
  qed
qed

lemma reachable_session_ok:
  "reachable h0 s \<Longrightarrow> session_ok h0 s"
proof (induction rule: reachable.induct)
  case start
  show ?case
    by (simp add: session_ok_def init_session_def initial_cache_def cache_ok_def)
next
  case (step s e)
  from step.IH show ?case by (rule session_step_ok)
qed

text \<open>
  Claim C8: in every session reachable from the plugin's start, a cached
  selected text is never empty and a cached pending annotation always carries a position.
\<close>

theorem reachable_cache_ok:
  "reachable h0 s \<Longrightarrow> cache_ok (cache s)"
  using reachable_session_ok by (simp add: session_ok_def)

text \<open>
  Claim C2: in every reachable session the host's items are unchanged, the
  annotation store only grew by appending, and every appended record is a highlight whose
  colour and bracketed comment are those of one registry category.
\<close>

theorem reachable_store_ok:
  "reachable h0 s \<Longrightarrow>
   items (store s) = items h0 \<and>
   (\<exists>new. annotations (store s) = annotations h0 @ new \<and> list_all category_record new)"
  using reachable_session_ok by (simp add: session_ok_def)

lemma semantic_buttons_nth:
  assumes "j < length SEMANTIC_COLORS"
  shows "btn_reader (semantic_buttons ev ! j) = ev_reader ev \<and>
         btn_key (semantic_buttons ev ! j) = fst (SEMANTIC_COLORS ! j) \<and>
         btn_color (semantic_buttons ev ! j) = snd (SEMANTIC_COLORS ! j) \<and>
         btn_popup (semantic_buttons ev ! j) = ev_has_popup ev"
  using assms by (simp add: semantic_buttons_def case_prod_beta)

lemma length_semantic_buttons [simp]: "length (semantic_buttons ev) = length SEMANTIC_COLORS"
  by (simp add: semantic_buttons_def)

text \<open>
  A popup event followed by a click on button \<open>j\<close> of that popup runs the writer with the
  popup's reader, the \<open>j\<close>-th category and the cache the event left.
\<close>

lemma compute_sort_index_Some:
  "rects pos \<noteq> None \<Longrightarrow> \<exists>si. compute_sort_index pos = Some si"
  by (auto simp: compute_sort_index_def Let_def)

lemma popup_then_click_run:
  assumes "j < length SEMANTIC_COLORS"
  shows "run_events s [Selection_popup ev, Click_button (length (popups s)) j] =
     (case applySemanticColor (store s) (Some (ev_reader ev)) (selectedText (capture_from_event ev (cache s)))
             (fst (SEMANTIC_COLORS ! j)) (snd (SEMANTIC_COLORS ! j)) (capture_from_event ev (cache s)) of
        (effs, h') \<Rightarrow> s\<lparr>cache := capture_from_event ev (cache s), popups := popups s @ [semantic_buttons ev],
                        store := h', trace := trace s @ effs @ (if ev_has_popup ev then [Hide_popup] else [])\<rparr>)"
  using assms semantic_buttons_nth [OF assms, of ev]
  by (simp add: onTextSelectionPopup_capture click_semantic_button_def split: prod.split)

text \<open>
  On a reader without internal selection state on a PDF attachment of a host that accepts
  saves, a popup event whose annotation has a position with \<open>rects\<close> (sort key \<open>si\<close>)
  followed by a click on its button \<open>j\<close> saves the record of the \<open>j\<close>-th category built
  from the cached text, that position and that key, then performs the writer's remaining effects and hides the popup.
\<close>

lemma popup_then_click:
  assumes it: "items (store s) iid = Some it" "isPDFAttachment it" "iid \<noteq> 0"
    and sf: "save_failure (store s) = None"
    and rd: "ev_reader ev = \<lparr>itemID = Some iid, internalReader = None, instanceID = rid\<rparr>"
    and an: "ev_annotation ev = Some a" "sel_position a = Some pos"
    and si: "compute_sort_index pos = Some si"
    and j: "j < length SEMANTIC_COLORS"
  shows "store (run_events s [Selection_popup ev, Click_button (length (popups s)) j]) =
       (store s)\<lparr>annotations := annotations (store s) @
          [new_annotation_item it (selectedText (capture_selection a (cache s))) (snd (SEMANTIC_COLORS ! j)) pos
             (Some (js_int_string (js_or_zero (pageIndex pos) + 1))) si]\<rparr> \<and>
     trace (run_events s [Selection_popup ev, Click_button (length (popups s)) j]) =
       trace s @ Saved (new_annotation_item it (selectedText (capture_selection a (cache s))) (snd (SEMANTIC_COLORS ! j))
             pos (Some (js_int_string (js_or_zero (pageIndex pos) + 1))) si) #
         after_save (selectedText (capture_selection a (cache s))) (snd (SEMANTIC_COLORS ! j)) @
         (if ev_has_popup ev then [Hide_popup] else [])"
proof -
  have d: "capture_from_event ev (cache s) = capture_selection a (cache s)"
    using an by (simp add: capture_from_event_def)
  have pa: "pendingAnnotation (capture_selection a (cache s)) = Some a"
    using an by (simp add: capture_selection_def Let_def split: option.splits)
  have w: "writable_item (store s) (Some (ev_reader ev)) = Some it"
    using it rd by (simp add: writable_item_def)
  have "rects pos \<noteq> None"
    using si by (auto simp: compute_sort_index_def split: option.splits)
  with rd an have rp: "resolve_position (internalReader (ev_reader ev)) (Some a) =
      Some (pos, Some (js_int_string (js_or_zero (pageIndex pos) + 1)))"
    by (simp add: resolve_position_def tier_defs)
  show ?thesis
    unfolding popup_then_click_run [OF j] using w rp si sf pa d
    by (simp add: applySemanticColor_eq saveTx_def)
qed

text \<open>
  Claim C7: end to end, on any session: a popup event whose annotation
  carries a non-empty text and a position with \<open>rects\<close>, on a reader without internal
  selection state on a PDF attachment of a host that accepts saves, followed by a click on
  the popup's button \<open>j\<close>, appends exactly one highlight to the store, with that text, that
  position, and the colour and bracketed name of the \<open>j\<close>-th category; the reader is
  refocused and the popup hidden last.
\<close>

theorem session_capture_then_apply:
  assumes "items (store s) iid = Some it" "isPDFAttachment it" "iid \<noteq> 0"
    and "save_failure (store s) = None"
    and "ev_reader ev = \<lparr>itemID = Some iid, internalReader = None, instanceID = rid\<rparr>"
    and "ev_annotation ev = Some a" "sel_position a = Some pos" "rects pos \<noteq> None"
    and "sel_text a = Some t" "t \<noteq> []" "ev_has_popup ev"
    and "j < length SEMANTIC_COLORS"
  shows "\<exists>ann. annotations (store (run_events s [Selection_popup ev, Click_button (length (popups s)) j])) =
            annotations (store s) @ [ann] \<and>
          annotationType ann = ''highlight'' \<and> annotationText ann = Some t \<and> annotationPosition ann = pos \<and>
          annotationColor ann = color (snd (SEMANTIC_COLORS ! j)) \<and>
          annotationComment ann = ''['' @ name (snd (SEMANTIC_COLORS ! j)) @ '']'' \<and>
          Focus_reader \<in> set (trace (run_events s [Selection_popup ev, Click_button (length (popups s)) j])) \<and>
          last (trace (run_events s [Selection_popup ev, Click_button (length (popups s)) j])) = Hide_popup"
proof -
  have tx: "selectedText (capture_selection a (cache s)) = Some t"
    using assms(9,10) by (simp add: capture_selection_def Let_def split: option.splits)
  obtain si where "compute_sort_index pos = Some si"
    using compute_sort_index_Some [OF assms(8)] by blast
  from popup_then_click [OF assms(1-7) this assms(12)] tx assms(11) show ?thesis
    by (auto simp: new_annotation_item_def after_save_def)
qed

text \<open>
  Claim C21: a button applies the text cached when it is clicked, not the
  text of the selection its popup was rendered for: after a popup for an event \<open>ev1\<close> and
  a second popup for an event \<open>ev2\<close> whose annotation has a non-empty text \<open>t2\<close>, clicking
  button \<open>j\<close> of the first popup runs the writer with the first popup's reader, the
  \<open>j\<close>-th category, the text \<open>t2\<close> and the cache as the second event left it.
\<close>

theorem click_reads_cache_at_click_time:
  assumes "ev_annotation ev2 = Some a2" "sel_text a2 = Some t2" "t2 \<noteq> []"
    and "j < length SEMANTIC_COLORS"
  shows "store (run_events s [Selection_popup ev1, Selection_popup ev2, Click_button (length (popups s)) j]) =
     snd (applySemanticColor (store s) (Some (ev_reader ev1)) (Some t2) (fst (SEMANTIC_COLORS ! j))
            (snd (SEMANTIC_COLORS ! j)) (capture_from_event ev2 (capture_from_event ev1 (cache s))))"
proof -
  have tx: "selectedText (capture_from_event ev2 d) = Some t2" for d
    using assms(1-3) by (simp add: capture_from_event_def capture_selection_def Let_def split: option.splits)
  show ?thesis
    using assms(4) semantic_buttons_nth [OF assms(4), of ev1] tx
    by (simp add: onTextSelectionPopup_capture click_semantic_button_def nth_append split: prod.split)
qed

text \<open>
  Claim C25: the undefined-text failure of the writer is reachable: from
  any session whose cache holds no text (the plugin's start among them), a popup event whose
  annotation has a position with \<open>rects\<close> but no text, followed by a click on one of its
  buttons on a writable reader, saves a highlight and then shows the TypeError of
  \<open>selectedText.substring\<close>, and the reader is not refocused.
\<close>

theorem session_text_undefined:
  assumes "items (store s) iid = Some it" "isPDFAttachment it" "iid \<noteq> 0"
    and "save_failure (store s) = None"
    and "ev_reader ev = \<lparr>itemID = Some iid, internalReader = None, instanceID = rid\<rparr>"
    and "ev_annotation ev = Some a" "sel_position a = Some pos" "rects pos \<noteq> None"
    and "sel_text a = None" "selectedText (cache s) = None"
    and "j < length SEMANTIC_COLORS"
  shows "length (annotations (store (run_events s [Selection_popup ev, Click_button (length (popups s)) j]))) =
           Suc (length (annotations (store s))) \<and>
         Notify_error (''Error applying color: '' @ substring_undefined_message) \<in>
           set (trace (run_events s [Selection_popup ev, Click_button (length (popups s)) j])) \<and>
         Focus_reader \<notin> set (drop (length (trace s))
           (trace (run_events s [Selection_popup ev, Click_button (length (popups s)) j])))"
proof -
  have tx: "selectedText (capture_selection a (cache s)) = None"
    using assms(9,10) by (simp add: capture_selection_def Let_def split: option.splits)
  obtain si where "compute_sort_index pos = Some si"
    using compute_sort_index_Some [OF assms(8)] by blast
  from popup_then_click [OF assms(1-7) this assms(11)] tx show ?thesis
    by (auto simp: after_save_def caught_def substring_TypeError_def)
qed


section \<open>Witnesses\<close>

theorem session_capture_then_apply_witness:
  "items (store (init_session sample_host)) (7::nat) = Some sample_item \<and>
   isPDFAttachment sample_item \<and>
   (7::nat) \<noteq> 0 \<and>
   save_failure (store (init_session sample_host)) = None \<and>
   ev_reader (sample_event (Some ''key finding'') sample_position) = \<lparr>itemID = Some (7::nat), internalReader = None, instanceID = ''r1''\<rparr> \<and>
   ev_annotation (sample_event (Some ''key finding'') sample_position) = Some (sample_selection (Some ''key finding'') sample_position) \<and>
   sel_position (sample_selection (Some ''key finding'') sample_position) = Some sample_position \<and>
   rects sample_position \<noteq> None \<and>
   sel_text (sample_selection (Some ''key finding'') sample_position) = Some ''key finding'' \<and>
   ''key finding'' \<noteq> [] \<and>
   ev_has_popup (sample_event (Some ''key finding'') sample_position) \<and>
   (1::nat) < length SEMANTIC_COLORS \<and>
   (\<exists>ann. annotations (store (run_events (init_session sample_host) [Selection_popup (sample_event (Some ''key finding'') sample_position), Click_button (length (popups (init_session sample_host))) (1::nat)])) =
            annotations (store (init_session sample_host)) @ [ann] \<and>
          annotationType ann = ''highlight'' \<and> annotationText ann = Some ''key finding'' \<and> annotationPosition ann = sample_position \<and>
          annotationColor ann = color (snd (SEMANTIC_COLORS ! (1::nat))) \<and>
          annotationComment ann = ''['' @ name (snd (SEMANTIC_COLORS ! (1::nat))) @ '']'' \<and>
          Focus_reader \<in> set (trace (run_events (init_session sample_host) [Selection_popup (sample_event (Some ''key finding'') sample_position), Click_button (length (popups (init_session sample_host))) (1::nat)])) \<and>
          last (trace (run_events (init_session sample_host) [Selection_popup (sample_event (Some ''key finding'') sample_position), Click_button (length (popups (init_session sample_host))) (1::nat)])) = Hide_popup)"
proof -
  have h: "items (store (init_session sample_host)) (7::nat) = Some sample_item"
    "isPDFAttachment sample_item"
    "(7::nat) \<noteq> 0"
    "save_failure (store (init_session sample_host)) = None"
    "ev_reader (sample_event (Some ''key finding'') sample_position) = \<lparr>itemID = Some (7::nat), internalReader = None, instanceID = ''r1''\<rparr>"
    "ev_annotation (sample_event (Some ''key finding'') sample_position) = Some (sample_selection (Some ''key finding'') sample_position)"
    "sel_position (sample_selection (Some ''key finding'') sample_position) = Some sample_position"
    "rects sample_position \<noteq> None"
    "sel_text (sample_selection (Some ''key finding'') sample_position) = Some ''key finding''"
    "''key finding'' \<noteq> []"
    "ev_has_popup (sample_event (Some ''key finding'') sample_position)"
    "(1::nat) < length SEMANTIC_COLORS"
    by (simp_all add: init_session_def initial_cache_def SEMANTIC_COLORS_def)
  show ?thesis using h session_capture_then_apply [OF h] by blast
qed

theorem click_reads_cache_at_click_time_witness:
  "ev_annotation (sample_event (Some ''B'') sample_position) = Some (sample_selection (Some ''B'') sample_position) \<and>
   sel_text (sample_selection (Some ''B'') sample_position) = Some ''B'' \<and>
   ''B'' \<noteq> [] \<and>
   (1::nat) < length SEMANTIC_COLORS \<and>
   (store (run_events (init_session sample_host) [Selection_popup (sample_event (Some ''A'') sample_position), Selection_popup (sample_event (Some ''B'') sample_position), Click_button (length (popups (init_session sample_host))) (1::nat)]) =
     snd (applySemanticColor (store (init_session sample_host)) (Some (ev_reader (sample_event (Some ''A'') sample_position))) (Some ''B'') (fst (SEMANTIC_COLORS ! (1::nat)))
            (snd (SEMANTIC_COLORS ! (1::nat))) (capture_from_event (sample_event (Some ''B'') sample_position) (capture_from_event (sample_event (Some ''A'') sample_position) (cache (init_session sample_host))))))"
proof -
  have h: "ev_annotation (sample_event (Some ''B'') sample_position) = Some (sample_selection (Some ''B'') sample_position)"
    "sel_text (sample_selection (Some ''B'') sample_position) = Some ''B''"
    "''B'' \<noteq> []"
    "(1::nat) < length SEMANTIC_COLORS"
    by (simp_all add: init_session_def initial_cache_def SEMANTIC_COLORS_def)
  show ?thesis using h click_reads_cache_at_click_time [OF h] by blast
qed

theorem session_text_undefined_witness:
  "items (store (init_session sample_host)) (7::nat) = Some sample_item \<and>
   isPDFAttachment sample_item \<and>
   (7::nat) \<noteq> 0 \<and>
   save_failure (store (init_session sample_host)) = None \<and>
   ev_reader (sample_event None sample_position) = \<lparr>itemID = Some (7::nat), internalReader = None, instanceID = ''r1''\<rparr> \<and>
   ev_annotation (sample_event None sample_position) = Some (sample_selection None sample_position) \<and>
   sel_position (sample_selection None sample_position) = Some sample_position \<and>
   rects sample_position \<noteq> None \<and>
   sel_text (sample_selection None sample_position) = None \<and>
   selectedText (cache (init_session sample_host)) = None \<and>
   (1::nat) < length SEMANTIC_COLORS \<and>
   (length (annotations (store (run_events (init_session sample_host) [Selection_popup (sample_event None sample_position), Click_button (length (popups (init_session sample_host))) (1::nat)]))) =
           Suc (length (annotations (store (init_session sample_host)))) \<and>
         Notify_error (''Error applying color: '' @ substring_undefined_message) \<in>
           set (trace (run_events (init_session sample_host) [Selection_popup (sample_event None sample_position), Click_button (length (popups (init_session sample_host))) (1::nat)])) \<and>
         Focus_reader \<notin> set (drop (length (trace (init_session sample_host)))
           (trace (run_events (init_session sample_host) [Selection_popup (sample_event None sample_position), Click_button (length (popups (init_session sample_host))) (1::nat)]))))"
proof -
  have h: "items (store (init_session sample_host)) (7::nat) = Some sample_item"
    "isPDFAttachment sample_item"
    "(7::nat) \<noteq> 0"
    "save_failure (store (init_session sample_host)) = None"
    "ev_reader (sample_event None sample_position) = \<lparr>itemID = Some (7::nat), internalReader = None, instanceID = ''r1''\<rparr>"
    "ev_annotation (sample_event None sample_position) = Some (sample_selection None sample_position)"
    "sel_position (sample_selection None sample_position) = Some sample_position"
    "rects sample_position \<noteq> None"
    "sel_text (sample_selection None sample_position) = None"
    "selectedText (cache (init_session sample_host)) = None"
    "(1::nat) < length SEMANTIC_COLORS"
    by (simp_all add: init_session_def initial_cache_def SEMANTIC_COLORS_def)
  show ?thesis using h session_text_undefined [OF h] by blast
qed


theorem reachable_cache_ok_witness:
  "reachable sample_host (session_step (init_session sample_host)
     (Selection_popup \<lparr>ev_reader = sample_reader,
        ev_annotation = Some \<lparr>sel_text = Some ''A'', sel_position = None, sel_pageIndex = None\<rparr>,
        ev_has_popup = True\<rparr>)) \<and>
   cache_ok (cache (session_step (init_session sample_host)
     (Selection_popup \<lparr>ev_reader = sample_reader,
        ev_annotation = Some \<lparr>sel_text = Some ''A'', sel_position = None, sel_pageIndex = None\<rparr>,
        ev_has_popup = True\<rparr>)))"
proof -
  have r: "reachable sample_host (session_step (init_session sample_host)
     (Selection_popup \<lparr>ev_reader = sample_reader,
        ev_annotation = Some \<lparr>sel_text = Some ''A'', sel_position = None, sel_pageIndex = None\<rparr>,
        ev_has_popup = True\<rparr>))"
    by (rule reachable.step [OF reachable.start])
  show ?thesis using r reachable_cache_ok [OF r] by simp
qed

theorem reachable_store_ok_witness:
  "reachable sample_host (session_step (init_session sample_host) (Click_button 0 0)) \<and>
   items (store (session_step (init_session sample_host) (Click_button 0 0))) = items sample_host \<and>
   (\<exists>new. annotations (store (session_step (init_session sample_host) (Click_button 0 0))) =
       annotations sample_host @ new \<and> list_all category_record new)"
proof -
  have r: "reachable sample_host (session_step (init_session sample_host) (Click_button 0 0))"
    by (rule reachable.step [OF reachable.start])
  show ?thesis using r reachable_store_ok [OF r] by simp
qed

end
