(* ===== verification/Lifecycle.thy ===== *)
theory Lifecycle
  imports Event_Loop
begin

text \<open>
  The plugin's lifecycle hooks of \<open>src/src/hooks.ts\<close> and the system they build: the host
  calls \<open>onStartup\<close> once it is ready, \<open>onMainWindowLoad\<close> and \<open>onMainWindowUnload\<close> as
  main windows open and close, and \<open>onShutdown\<close> when it unloads the plugin. Every call
  of \<open>onMainWindowLoad\<close> creates a toolkit into the single slot \<open>addon.data.ztoolkit\<close>,
  inserts the window's localisation file and registers one more
  \<open>renderTextSelectionPopup\<close> listener with the host's reader registry, which is global.
  A popup event is handled by every registered listener in turn, each appending its own
  button container to the same popup. The system state pairs the hook-level state with
  the session of theory \<open>Event_Loop\<close>; its reachable states are an inductive set.

  The global \<open>ztoolkit\<close> the hooks call is the plugin template's getter of
  \<open>addon.data.ztoolkit\<close>, so \<open>unregisterAll\<close> runs on the toolkit in that slot.
  The state of \<open>addon.data\<close> before the first hook (the \<open>Addon\<close> object and the
  registration of the plugin instance on \<open>Zotero\<close>) is code outside \<open>src/\<close>, modelled from
  the template it comes from; so is the host's side: its reader registry drops the listeners
  registered under the plugin's ID when it unloads the plugin.
\<close>

section \<open>Hook-level state\<close>

text \<open>\<open>addon.data.config\<close>: the identifiers the hooks use.\<close>

record addon_config =
  addonID :: string
  addonRef :: string
  addonInstance :: string

text \<open>
  The toolkits are numbered in creation order; \<open>toolkit_owner\<close> records the window each
  was created for (\<open>None\<close> for the one the \<open>Addon\<close> constructor creates), \<open>ztoolkit\<close> the
  one in \<open>addon.data.ztoolkit\<close>, and \<open>unregistered\<close> the toolkits whose \<open>unregisterAll\<close>
  ran, in order. \<open>popup_listeners\<close> is the host's list of \<open>renderTextSelectionPopup\<close>
  listeners, by the plugin ID each was registered under; \<open>zotero_instances\<close> the plugin
  properties set on the \<open>Zotero\<close> object.
\<close>

record plugin_state =
  initialized :: bool
  alive :: bool
  locale_ready :: bool
  ztoolkit :: nat
  toolkit_owner :: "nat option list"
  unregistered :: "nat list"
  ftl_links :: "(nat \<times> string) list"
  popup_listeners :: "string list"
  zotero_instances :: "string list"

definition init_plugin :: "addon_config \<Rightarrow> plugin_state" where
  "init_plugin cfg =
     \<lparr>initialized = False, alive = True, locale_ready = False, ztoolkit = 0, toolkit_owner = [None],
      unregistered = [], ftl_links = [], popup_listeners = [], zotero_instances = [addonInstance cfg]\<rparr>"

section \<open>The hooks\<close>

text \<open>
  \<open>onMainWindowLoad\<close> (lines 25--47): a new toolkit, the window's FTL file inserted
  unless already present, and one more popup listener under the plugin's ID.
\<close>

definition onMainWindowLoad :: "addon_config \<Rightarrow> nat \<Rightarrow> plugin_state \<Rightarrow> plugin_state" where
  "onMainWindowLoad cfg win p =
     (let ftl = (win, addonRef cfg @ ''-mainWindow.ftl'') in
      p\<lparr>ztoolkit := length (toolkit_owner p),
        toolkit_owner := toolkit_owner p @ [Some win],
        ftl_links := (if ftl \<in> set (ftl_links p) then ftl_links p else ftl_links p @ [ftl]),
        popup_listeners := popup_listeners p @ [addonID cfg]\<rparr>)"

text \<open>
  \<open>onStartup\<close> (lines 7--23), once the host's three readiness promises have resolved:
  the locale, then \<open>onMainWindowLoad\<close> for every open main window. The loads run in the
  order of \<open>getMainWindows()\<close>, each to completion, since none of them awaits; then the
  plugin is marked initialised.
\<close>

definition onStartup :: "addon_config \<Rightarrow> nat list \<Rightarrow> plugin_state \<Rightarrow> plugin_state" where
  "onStartup cfg wins p =
     (let p1 = fold (onMainWindowLoad cfg) wins (p\<lparr>locale_ready := True\<rparr>) in
      p1\<lparr>initialized := True\<rparr>)"

text \<open>\<open>onMainWindowUnload\<close> (lines 57--59): the window argument is not used.\<close>

definition onMainWindowUnload :: "nat \<Rightarrow> plugin_state \<Rightarrow> plugin_state" where
  "onMainWindowUnload win p = p\<lparr>unregistered := unregistered p @ [ztoolkit p]\<rparr>"

text \<open>\<open>onShutdown\<close> (lines 61--67).\<close>

definition onShutdown :: "addon_config \<Rightarrow> plugin_state \<Rightarrow> plugin_state" where
  "onShutdown cfg p =
     p\<lparr>unregistered := unregistered p @ [ztoolkit p], alive := False,
       zotero_instances := filter (\<lambda>n. n \<noteq> addonInstance cfg) (zotero_instances p)\<rparr>"

text \<open>The host unloading the plugin drops the listeners registered under its ID.\<close>

definition host_unload_plugin :: "addon_config \<Rightarrow> plugin_state \<Rightarrow> plugin_state" where
  "host_unload_plugin cfg p = p\<lparr>popup_listeners := filter (\<lambda>i. i \<noteq> addonID cfg) (popup_listeners p)\<rparr>"

section \<open>The system\<close>

text \<open>
  The host dispatching one popup event to \<open>n\<close> registered listeners: each runs the listener
  of theory \<open>Popup\<close> on the cache the previous one left, and the button containers are
  appended to the popup in registration order.
\<close>

fun run_listeners :: "nat \<Rightarrow> popup_event \<Rightarrow> semantic_colors_data \<Rightarrow> semantic_colors_data \<times> semantic_button list" where
  "run_listeners 0 ev d = (d, [])"
| "run_listeners (Suc n) ev d =
     (case onTextSelectionPopup ev d of
        (d1, bs) \<Rightarrow> (case run_listeners n ev d1 of (d2, bss) \<Rightarrow> (d2, bs @ bss)))"

definition popup_dispatch :: "nat \<Rightarrow> popup_event \<Rightarrow> session \<Rightarrow> session" where
  "popup_dispatch n ev s =
     (case run_listeners n ev (cache s) of (d, bs) \<Rightarrow> s\<lparr>cache := d, popups := popups s @ [bs]\<rparr>)"

record system =
  plugin :: plugin_state
  sess :: session

datatype sys_event =
    Startup "nat list"
  | Window_load nat
  | Window_unload nat
  | Shutdown
  | Host_event event

definition init_system :: "addon_config \<Rightarrow> host \<Rightarrow> system" where
  "init_system cfg h0 = \<lparr>plugin = init_plugin cfg, sess = init_session h0\<rparr>"

fun sys_step :: "addon_config \<Rightarrow> system \<Rightarrow> sys_event \<Rightarrow> system" where
  "sys_step cfg s (Startup wins) = s\<lparr>plugin := onStartup cfg wins (plugin s)\<rparr>"
| "sys_step cfg s (Window_load w) = s\<lparr>plugin := onMainWindowLoad cfg w (plugin s)\<rparr>"
| "sys_step cfg s (Window_unload w) = s\<lparr>plugin := onMainWindowUnload w (plugin s)\<rparr>"
| "sys_step cfg s Shutdown = s\<lparr>plugin := host_unload_plugin cfg (onShutdown cfg (plugin s))\<rparr>"
| "sys_step cfg s (Host_event (Selection_popup ev)) =
     s\<lparr>sess := popup_dispatch (length (popup_listeners (plugin s))) ev (sess s)\<rparr>"
| "sys_step cfg s (Host_event (Click_button i j)) = s\<lparr>sess := session_step (sess s) (Click_button i j)\<rparr>"

fun sys_run :: "addon_config \<Rightarrow> system \<Rightarrow> sys_event list \<Rightarrow> system" where
  "sys_run cfg s [] = s"
| "sys_run cfg s (e # es) = sys_run cfg (sys_step cfg s e) es"

text \<open>The events that run \<open>onMainWindowLoad\<close>.\<close>

fun loads_window :: "sys_event \<Rightarrow> bool" where
  "loads_window (Startup wins) = True"
| "loads_window (Window_load w) = True"
| "loads_window e = False"

inductive sys_reachable :: "addon_config \<Rightarrow> host \<Rightarrow> system \<Rightarrow> bool" for cfg h0 where
  start: "sys_reachable cfg h0 (init_system cfg h0)"
| step: "sys_reachable cfg h0 s \<Longrightarrow> sys_reachable cfg h0 (sys_step cfg s e)"

text \<open>A configuration and the system after startup with one main window.\<close>

abbreviation sample_config :: addon_config where
  "sample_config \<equiv> \<lparr>addonID = ''semantic-coloring@example'', addonRef = ''semanticcoloring'',
     addonInstance = ''SemanticColoring''\<rparr>"

abbreviation sample_started :: system where
  "sample_started \<equiv> sys_step sample_config (init_system sample_config sample_host) (Startup [1])"

section \<open>Lemmas\<close>

lemma capture_selection_idem [simp]:
  "capture_selection a (capture_selection a d) = capture_selection a d"
  by (simp add: capture_selection_def Let_def split: option.splits)

lemma capture_from_event_idem [simp]:
  "capture_from_event ev (capture_from_event ev d) = capture_from_event ev d"
  by (simp add: capture_from_event_def split: option.splits)

lemma run_listeners_eq:
  "run_listeners n ev d =
     (if n = 0 then d else capture_from_event ev d, concat (replicate n (semantic_buttons ev)))"
  by (induction n arbitrary: d) (auto simp: onTextSelectionPopup_capture)

lemma popup_dispatch_fields [simp]:
  "cache (popup_dispatch n ev s) = (if n = 0 then cache s else capture_from_event ev (cache s))"
  "popups (popup_dispatch n ev s) = popups s @ [concat (replicate n (semantic_buttons ev))]"
  "store (popup_dispatch n ev s) = store s"
  "trace (popup_dispatch n ev s) = trace s"
  by (simp_all add: popup_dispatch_def run_listeners_eq)

lemma replicated_buttons_registry [simp]:
  "list_all registry_button (concat (replicate n (semantic_buttons ev)))"
  by (induction n) simp_all

lemma popup_dispatch_one:
  "popup_dispatch (Suc 0) ev s = session_step s (Selection_popup ev)"
  by (simp add: popup_dispatch_def onTextSelectionPopup_capture)

lemma popup_dispatch_ok:
  assumes "session_ok h0 s"
  shows "session_ok h0 (popup_dispatch n ev s)"
proof -
  from assms have "cache_ok (cache (popup_dispatch n ev s))"
    by (simp add: session_ok_def capture_from_event_cache_ok)
  moreover have "popup_dispatch n ev s =
      s\<lparr>cache := cache (popup_dispatch n ev s), popups := popups s @ [concat (replicate n (semantic_buttons ev))]\<rparr>"
    by (simp add: popup_dispatch_def run_listeners_eq)
  ultimately show ?thesis
    using assms by (metis replicated_buttons_registry session_ok_add_popup)
qed

lemma sys_step_ok:
  "session_ok h0 (sess s) \<Longrightarrow> session_ok h0 (sess (sys_step cfg s e))"
  by (induction cfg s e rule: sys_step.induct) (simp_all add: popup_dispatch_ok session_step_ok del: session_step.simps)

lemma sys_reachable_session_ok:
  "sys_reachable cfg h0 s \<Longrightarrow> session_ok h0 (sess s)"
proof (induction rule: sys_reachable.induct)
  case start
  show ?case
    by (simp add: init_system_def session_ok_def init_session_def initial_cache_def cache_ok_def)
next
  case (step s e)
  from step.IH show ?case by (rule sys_step_ok)
qed

lemma fold_onMainWindowLoad:
  "popup_listeners (fold (onMainWindowLoad cfg) wins p) = popup_listeners p @ replicate (length wins) (addonID cfg) \<and>
   toolkit_owner (fold (onMainWindowLoad cfg) wins p) = toolkit_owner p @ map Some wins \<and>
   unregistered (fold (onMainWindowLoad cfg) wins p) = unregistered p \<and>
   alive (fold (onMainWindowLoad cfg) wins p) = alive p \<and>
   locale_ready (fold (onMainWindowLoad cfg) wins p) = locale_ready p \<and>
   zotero_instances (fold (onMainWindowLoad cfg) wins p) = zotero_instances p"
  by (induction wins arbitrary: p) (simp_all add: onMainWindowLoad_def Let_def replicate_app_Cons_same)

lemma onStartup_fields [simp]:
  "popup_listeners (onStartup cfg wins p) = popup_listeners p @ replicate (length wins) (addonID cfg)"
  "toolkit_owner (onStartup cfg wins p) = toolkit_owner p @ map Some wins"
  "unregistered (onStartup cfg wins p) = unregistered p"
  "alive (onStartup cfg wins p) = alive p"
  "zotero_instances (onStartup cfg wins p) = zotero_instances p"
  "initialized (onStartup cfg wins p)"
  "locale_ready (onStartup cfg wins p)"
  by (simp_all add: onStartup_def fold_onMainWindowLoad Let_def)

lemma onStartup_last_toolkit:
  "ztoolkit (onStartup cfg (wins @ [w]) p) = length (toolkit_owner p) + length wins"
  by (simp add: onStartup_def onMainWindowLoad_def fold_onMainWindowLoad Let_def)

lemma host_events_keep_plugin [simp]:
  "plugin (sys_step cfg s (Host_event e)) = plugin s"
  by (cases e) simp_all

lemma sys_run_append:
  "sys_run cfg s (xs @ ys) = sys_run cfg (sys_run cfg s xs) ys"
  by (induction xs arbitrary: s) simp_all

lemma sys_step_keeps_toolkits:
  "\<not> loads_window e \<Longrightarrow>
   ztoolkit (plugin (sys_step cfg s e)) = ztoolkit (plugin s) \<and>
   toolkit_owner (plugin (sys_step cfg s e)) = toolkit_owner (plugin s)"
  by (cases "(cfg, s, e)" rule: sys_step.cases)
    (simp_all add: onMainWindowUnload_def onShutdown_def host_unload_plugin_def)

lemma sys_run_keeps_toolkits:
  "\<not> list_ex loads_window es \<Longrightarrow>
   ztoolkit (plugin (sys_run cfg s es)) = ztoolkit (plugin s) \<and>
   toolkit_owner (plugin (sys_run cfg s es)) = toolkit_owner (plugin s)"
proof (induction es arbitrary: s)
  case Nil
  show ?case by simp
next
  case (Cons e es)
  then have "\<not> loads_window e" and "\<not> list_ex loads_window es" by simp_all
  with Cons.IH [of "sys_step cfg s e"] sys_step_keeps_toolkits [of e cfg s] show ?case
    by (simp del: sys_step.simps)
qed

lemma sys_run_host_events:
  "popup_listeners (plugin s) = [x] \<Longrightarrow>
   sess (sys_run cfg s (map Host_event es)) = run_events (sess s) es"
proof (induction es arbitrary: s)
  case Nil
  show ?case by simp
next
  case (Cons e es)
  have "sess (sys_step cfg s (Host_event e)) = session_step (sess s) e"
    using Cons.prems by (cases e) (simp_all add: popup_dispatch_one del: session_step.simps)
  with Cons show ?case by simp
qed

text \<open>
  Claim C15: \<open>onStartup\<close> initialises the locale, marks the plugin
  initialised, registers one popup listener and creates one toolkit per open main window, in the
  order of the windows, and leaves the toolkit of the last window in the single slot
  \<open>addon.data.ztoolkit\<close>.
\<close>

theorem onStartup_windows:
  "let p' = onStartup cfg (wins @ [w]) p in
   initialized p' \<and> locale_ready p' \<and>
   popup_listeners p' = popup_listeners p @ replicate (Suc (length wins)) (addonID cfg) \<and>
   toolkit_owner p' = toolkit_owner p @ map Some (wins @ [w]) \<and>
   toolkit_owner p' ! ztoolkit p' = Some w"
  by (simp add: onStartup_last_toolkit nth_append)

text \<open>
  Claim C14: because every main window registers its own listener
  with the host's global reader registry, a text-selection popup after startup with the
  windows \<open>wins\<close> holds one full set of category buttons per window: with two main windows
  every category is offered twice.
\<close>

theorem popup_buttons_per_window:
  "popups (sess (sys_run cfg (init_system cfg h0) [Startup wins, Host_event (Selection_popup ev)])) =
   [concat (replicate (length wins) (semantic_buttons ev))]"
  by (simp add: init_system_def init_plugin_def init_session_def)

text \<open>
  Claim C13: with one main window, the whole system after
  startup handles every sequence of popup events and button clicks exactly as the
  one-listener session model of theory \<open>Event_Loop\<close>, so the session theorems hold of it.
\<close>

theorem single_window_refines_session:
  "sess (sys_run cfg (sys_step cfg (init_system cfg h0) (Startup [w])) (map Host_event es)) =
   run_events (init_session h0) es"
proof -
  have "popup_listeners (plugin (sys_step cfg (init_system cfg h0) (Startup [w]))) = [addonID cfg]"
    by (simp add: init_system_def init_plugin_def)
  from sys_run_host_events [OF this] show ?thesis
    by (simp add: init_system_def)
qed

text \<open>
  Claim C11: in every state the system reaches from the plugin's load,
  through any order of lifecycle hooks, popup events dispatched to all registered listeners
  and button clicks, the host's items are unchanged and the annotation store only grew by
  appended highlights whose colour and comment are those of a registry category.
\<close>

theorem sys_reachable_store_ok:
  "sys_reachable cfg h0 s \<Longrightarrow>
   items (store (sess s)) = items h0 \<and>
   (\<exists>new. annotations (store (sess s)) = annotations h0 @ new \<and> list_all category_record new)"
  using sys_reachable_session_ok by (simp add: session_ok_def)

lemma click_first_popup_button:
  assumes ok: "session_ok h0 s" and n: "0 < n"
    and it: "items h0 iid = Some it" "isPDFAttachment it" "iid \<noteq> 0" and sf: "save_failure h0 = None"
    and ev: "ev_reader ev = \<lparr>itemID = Some iid, internalReader = None, instanceID = rid\<rparr>"
      "ev_annotation ev = Some a" "sel_position a = Some pos" "rects pos \<noteq> None"
  shows "\<exists>b. annotations (store (session_step (popup_dispatch n ev s) (Click_button (length (popups s)) 0))) =
           annotations (store s) @ [b] \<and> category_record b"
proof -
  let ?s1 = "popup_dispatch n ev s"
  let ?bs = "concat (replicate n (semantic_buttons ev))"
  let ?r = "ev_reader ev"
  obtain m where m: "n = Suc m" using n by (cases n) auto
  have bs: "?bs ! 0 = hd (semantic_buttons ev)" "0 < length ?bs"
    using m by (simp_all add: semantic_buttons_def SEMANTIC_COLORS_def nth_append)
  let ?b = "hd (semantic_buttons ev)"
  have b: "btn_reader ?b = ?r" "(btn_key ?b, btn_color ?b) \<in> set SEMANTIC_COLORS"
    by (simp_all add: semantic_buttons_def SEMANTIC_COLORS_def)
  from ok have st: "items (store s) = items h0" "save_failure (store s) = None"
    using sf by (simp_all add: session_ok_def)
  from n ev have pa: "pendingAnnotation (cache ?s1) = Some a"
    by (simp add: capture_from_event_def capture_selection_def Let_def split: option.splits)
  have w: "writable_item (store s) (Some ?r) = Some it"
    using it st ev by (simp add: writable_item_def)
  have rp: "resolve_position (internalReader ?r) (pendingAnnotation (cache ?s1)) =
      Some (pos, Some (js_int_string (js_or_zero (pageIndex pos) + 1)))"
    using ev pa by (simp add: resolve_position_def tier_defs)
  obtain si where sv: "snd (applySemanticColor (store s) (Some ?r) (selectedText (cache ?s1)) (btn_key ?b)
        (btn_color ?b) (cache ?s1)) =
      (store s)\<lparr>annotations := annotations (store s) @
        [new_annotation_item it (selectedText (cache ?s1)) (btn_color ?b) pos
           (Some (js_int_string (js_or_zero (pageIndex pos) + 1))) si]\<rparr>"
    using apply_saves_record [OF w rp st(2)] by blast
  have "category_record (new_annotation_item it (selectedText (cache ?s1)) (btn_color ?b) pos
           (Some (js_int_string (js_or_zero (pageIndex pos) + 1))) si)"
    using b(2) by (rule category_record_registry) (simp_all add: new_annotation_item_def)
  moreover have "store (session_step ?s1 (Click_button (length (popups s)) 0)) =
      snd (applySemanticColor (store s) (Some ?r) (selectedText (cache ?s1)) (btn_key ?b) (btn_color ?b) (cache ?s1))"
    using bs b(1) by (simp add: click_semantic_button_def split: prod.split)
  ultimately show ?thesis using sv by auto
qed

text \<open>
  Claim C18: in every state the system reaches, through any order of
  lifecycle hooks, popup events dispatched to all registered listeners and clicks, the
  cached selected text is never empty and a cached pending annotation carries a position.
\<close>

theorem sys_reachable_cache_ok:
  "sys_reachable cfg h0 s \<Longrightarrow> cache_ok (cache (sess s))"
  using sys_reachable_session_ok by (simp add: session_ok_def)

text \<open>
  Claim C12: progress of the system: from every reachable state in which at
  least one popup listener is registered, the user can always get a highlight saved (when
  the host accepts saves and holds a PDF attachment): some sequence of events, a popup
  event on that attachment followed by a click on one of its buttons, appends exactly one
  category highlight to the store.
\<close>

theorem sys_progress:
  assumes "sys_reachable cfg h0 s" and "popup_listeners (plugin s) \<noteq> []"
    and "items h0 iid = Some it" and "isPDFAttachment it" and "iid \<noteq> 0" and "save_failure h0 = None"
  shows "\<exists>es b. annotations (store (sess (sys_run cfg s es))) = annotations (store (sess s)) @ [b] \<and>
           category_record b"
proof -
  let ?pos = "\<lparr>pageIndex = Some 0, rects = Some [[0, 0, 1, 1]]\<rparr>"
  let ?a = "\<lparr>sel_text = Some ''x'', sel_position = Some ?pos, sel_pageIndex = None\<rparr>"
  let ?ev = "\<lparr>ev_reader = \<lparr>itemID = Some iid, internalReader = None, instanceID = []\<rparr>,
              ev_annotation = Some ?a, ev_has_popup = False\<rparr>"
  let ?es = "[Host_event (Selection_popup ?ev), Host_event (Click_button (length (popups (sess s))) 0)]"
  have ok: "session_ok h0 (sess s)" using assms(1) by (rule sys_reachable_session_ok)
  have "\<exists>b. annotations (store (session_step (popup_dispatch (length (popup_listeners (plugin s))) ?ev (sess s))
          (Click_button (length (popups (sess s))) 0))) = annotations (store (sess s)) @ [b] \<and> category_record b"
    using ok assms(2-6) by (intro click_first_popup_button [where pos = ?pos and a = ?a]) simp_all
  then have "\<exists>b. annotations (store (sess (sys_run cfg s ?es))) = annotations (store (sess s)) @ [b] \<and>
      category_record b"
    by (simp del: session_step.simps)
  then show ?thesis by blast
qed

text \<open>
  Claim C16: \<open>onMainWindowUnload\<close> ignores the window it is given: from any
  system state, after a load of window \<open>w2\<close> and any events that load no further window
  (popups, clicks, other unloads, shutdown), unloading any window \<open>w1\<close> (another, still
  open window among them) runs \<open>unregisterAll\<close> on the toolkit created for \<open>w2\<close>.
\<close>

theorem unload_unregisters_last_toolkit:
  assumes "\<not> list_ex loads_window es"
  shows "let p = plugin (sys_run cfg s (Window_load w2 # es @ [Window_unload w1])) in
         toolkit_owner p ! last (unregistered p) = Some w2"
proof -
  let ?p0 = "plugin (sys_step cfg s (Window_load w2))"
  have p0: "toolkit_owner ?p0 ! ztoolkit ?p0 = Some w2"
    by (simp add: onMainWindowLoad_def Let_def)
  define s1 where "s1 = sys_run cfg (sys_step cfg s (Window_load w2)) es"
  have "ztoolkit (plugin s1) = ztoolkit ?p0 \<and> toolkit_owner (plugin s1) = toolkit_owner ?p0"
    unfolding s1_def using assms by (rule sys_run_keeps_toolkits)
  with p0 have k: "toolkit_owner (plugin s1) ! ztoolkit (plugin s1) = Some w2" by simp
  have "sys_run cfg s (Window_load w2 # es @ [Window_unload w1]) = sys_step cfg s1 (Window_unload w1)"
    unfolding s1_def by (simp only: sys_run.simps sys_run_append)
  with k show ?thesis
    by (simp add: onMainWindowUnload_def Let_def)
qed

text \<open>
  Claim C17: after startup with the main windows \<open>wins @ [w]\<close> and
  shutdown, the plugin is no longer alive, its instance is removed from \<open>Zotero\<close>, no popup
  listener remains once the host has unloaded it, and \<open>unregisterAll\<close> ran on exactly one
  toolkit, the last window's: the toolkits of the other windows and the initial one are
  never unregistered.
\<close>

theorem shutdown_after_startup:
  "let p = plugin (sys_run cfg (init_system cfg h0) [Startup (wins @ [w]), Shutdown]) in
   \<not> alive p \<and> addonInstance cfg \<notin> set (zotero_instances p) \<and> popup_listeners p = [] \<and>
   unregistered p = [Suc (length wins)] \<and> toolkit_owner p ! Suc (length wins) = Some w"
  by (simp add: init_system_def init_plugin_def onShutdown_def host_unload_plugin_def
      onStartup_last_toolkit nth_append)

section \<open>Witnesses\<close>

theorem sys_reachable_store_ok_witness:
  "sys_reachable sample_config sample_host sample_started \<and>
   items (store (sess sample_started)) = items sample_host \<and>
   (\<exists>new. annotations (store (sess sample_started)) = annotations sample_host @ new \<and>
      list_all category_record new)"
proof -
  have r: "sys_reachable sample_config sample_host sample_started"
    by (rule sys_reachable.step [OF sys_reachable.start])
  show ?thesis using r sys_reachable_store_ok [OF r] by simp
qed

theorem unload_unregisters_last_toolkit_witness:
  "\<not> list_ex loads_window [Host_event (Click_button 0 0), Window_unload 5] \<and>
   (let p = plugin (sys_run sample_config sample_started
              (Window_load 2 # [Host_event (Click_button 0 0), Window_unload 5] @ [Window_unload 1])) in
    toolkit_owner p ! last (unregistered p) = Some 2)"
proof -
  have h: "\<not> list_ex loads_window [Host_event (Click_button 0 0), Window_unload 5]" by simp
  show ?thesis using h unload_unregisters_last_toolkit [OF h] by blast
qed

theorem sys_reachable_cache_ok_witness:
  "sys_reachable sample_config sample_host
     (sys_step sample_config sample_started (Host_event (Selection_popup (sample_event (Some ''A'') sample_position)))) \<and>
   cache_ok (cache (sess (sys_step sample_config sample_started
     (Host_event (Selection_popup (sample_event (Some ''A'') sample_position))))))"
proof -
  have r: "sys_reachable sample_config sample_host
     (sys_step sample_config sample_started (Host_event (Selection_popup (sample_event (Some ''A'') sample_position))))"
    by (rule sys_reachable.step [OF sys_reachable.step [OF sys_reachable.start]])
  show ?thesis using r sys_reachable_cache_ok [OF r] by simp
qed

theorem sys_progress_witness:
  "sys_reachable sample_config sample_host sample_started \<and>
   popup_listeners (plugin sample_started) \<noteq> [] \<and>
   items sample_host 7 = Some sample_item \<and> isPDFAttachment sample_item \<and> (7::nat) \<noteq> 0 \<and>
   save_failure sample_host = None \<and>
   (\<exists>es b. annotations (store (sess (sys_run sample_config sample_started es))) =
      annotations (store (sess sample_started)) @ [b] \<and> category_record b)"
proof -
  have r: "sys_reachable sample_config sample_host sample_started"
    by (rule sys_reachable.step [OF sys_reachable.start])
  have h: "popup_listeners (plugin sample_started) \<noteq> []"
    "items sample_host 7 = Some sample_item" "isPDFAttachment sample_item" "(7::nat) \<noteq> 0"
    "save_failure sample_host = None"
    by (simp_all add: init_system_def init_plugin_def)
  show ?thesis using r h sys_progress [OF r h] by blast
qed

end
