(* ===== verification/Writer_Contract.thy ===== *)
theory Writer_Contract
  imports Writer
begin

text \<open>
  The writer's contract of the specification (section 4.4):
  \<open>applyCategory(reader, selectedText, categoryKey) -> Result<AnnotationID, Failure>\<close>,
  with the failure kinds of its error taxonomy (section 7) and the resolver contract of
  section 4.2 (the first usable selection source). \<open>applyCategory\<close> is that contract as a
  function to a result and the new list of stored records, each record seen through the
  fields the contract fixes (document, text, comment, colour, position). The code's
  \<open>applySemanticColor\<close> returns nothing: its result is what it reports, read off its
  effects by \<open>writer_report\<close> (the saved record, or the failure its log line or its
  notification names). The refinement theorem shows that the code implements the contract
  for every registry category and every cached annotation without an empty \<open>rects\<close> array;
  the remaining differences (messages the user does not see, the error shown after a save
  when the text is undefined) are not part of the reported outcome and have their own
  theorems in theory Writer.
\<close>

section \<open>The contract\<close>

datatype failure =
    Unknown_category
  | No_active_reader
  | Unsupported_item
  | No_selection_geometry
  | Persistence_failure string

text \<open>The fields of an annotation record the contract determines.\<close>

type_synonym record_view = "nat \<times> string option \<times> string \<times> string \<times> position"

definition ann_view :: "annotation_item \<Rightarrow> record_view" where
  "ann_view a = (parentID a, annotationText a, annotationComment a, annotationColor a, annotationPosition a)"

text \<open>
  A reader without a document identity (no reader, no or a zero item ID) is an inactive
  context; a document identity that does not name a PDF attachment of the store is an
  unsupported target.
\<close>

definition applyCategory ::
  "host \<Rightarrow> reader option \<Rightarrow> string option \<Rightarrow> string \<Rightarrow> semantic_colors_data \<Rightarrow>
   (failure + record_view) \<times> record_view list" where
  "applyCategory h rd txt key d =
     (let stored = map ann_view (annotations h) in
      case map_of SEMANTIC_COLORS key of
        None \<Rightarrow> (Inl Unknown_category, stored)
      | Some sc \<Rightarrow>
          (case rd of
             None \<Rightarrow> (Inl No_active_reader, stored)
           | Some r \<Rightarrow>
               (case itemID r of
                  None \<Rightarrow> (Inl No_active_reader, stored)
                | Some iid \<Rightarrow>
                    if iid = 0 then (Inl No_active_reader, stored)
                    else (case items h iid of
                            None \<Rightarrow> (Inl Unsupported_item, stored)
                          | Some it \<Rightarrow>
                              if \<not> isPDFAttachment it then (Inl Unsupported_item, stored)
                              else (case first_usable (selection_sources (internalReader r) (pendingAnnotation d)) of
                                      None \<Rightarrow> (Inl No_selection_geometry, stored)
                                    | Some pos \<Rightarrow>
                                        (case save_failure h of
                                           Some e \<Rightarrow> (Inl (Persistence_failure (err_message e)), stored)
                                         | None \<Rightarrow>
                                             (let v = (item_id it, txt, ''['' @ name sc @ '']'', color sc, pos)
                                              in (Inr v, stored @ [v]))))))))"

section \<open>What the writer reports\<close>

text \<open>
  The outcome of one activation as the user and the log see it: the record it saved, or
  the failure named by its log line (inactive context, unsupported item) or by its
  notification (missing geometry, caught error with the host's message).
\<close>

definition caught_prefix :: string where
  "caught_prefix = ''Error applying color: ''"

definition writer_report :: "effect list \<Rightarrow> failure + annotation_item" where
  "writer_report effs =
     (case [a. Saved a \<leftarrow> effs] of
        a # _ \<Rightarrow> Inr a
      | [] \<Rightarrow>
          if Log ''No active reader found or invalid item ID'' \<in> set effs then Inl No_active_reader
          else if Log ''Current item is not a PDF attachment'' \<in> set effs then Inl Unsupported_item
          else if Notify_error ''Please select text in the PDF first'' \<in> set effs then Inl No_selection_geometry
          else (case [m. Notify_error m \<leftarrow> effs] of
                  m # _ \<Rightarrow> Inl (Persistence_failure (drop (length caught_prefix) m))
                | [] \<Rightarrow> Inl (Persistence_failure [])))"

definition writer_outcome :: "effect list \<times> host \<Rightarrow> (failure + record_view) \<times> record_view list" where
  "writer_outcome r = (map_sum id ann_view (writer_report (fst r)), map ann_view (annotations (snd r)))"

section \<open>Lemmas\<close>

lemma map_of_registry_name:
  "map_of SEMANTIC_COLORS key = Some sc \<Longrightarrow> (key, sc) \<in> set SEMANTIC_COLORS"
  by (rule map_of_SomeD)

lemma writer_report_caught [simp]:
  "writer_report (caught e) = Inl (Persistence_failure (err_message e))"
  by (simp add: writer_report_def caught_def caught_prefix_def)

lemma writer_report_saved [simp]:
  "writer_report (Saved a # effs) = Inr a"
  by (simp add: writer_report_def)

lemma writable_item_Some:
  "writable_item h rd = Some it \<longleftrightarrow>
     (\<exists>r iid. rd = Some r \<and> itemID r = Some iid \<and> iid \<noteq> 0 \<and> items h iid = Some it \<and> isPDFAttachment it)"
  by (auto simp: writable_item_def split: option.splits if_splits)

lemma writer_outcome_unwritable:
  assumes "writable_item h rd = None" "map_of SEMANTIC_COLORS k = Some sc"
  shows "writer_outcome (applySemanticColor h rd txt k sc d) = applyCategory h rd txt k d"
  using assms
  by (auto simp: applySemanticColor_def applyCategory_def writer_outcome_def writer_report_def
      writable_item_def split: option.splits)

lemma writer_outcome_writable:
  assumes w: "writable_item h (Some r) = Some it" and k: "map_of SEMANTIC_COLORS k = Some sc"
    and pa: "no_empty_pending (pendingAnnotation d)"
  shows "writer_outcome (applySemanticColor h (Some r) txt k sc d) = applyCategory h (Some r) txt k d"
proof -
  from w obtain iid where iid: "itemID r = Some iid" "iid \<noteq> 0" "items h iid = Some it" "isPDFAttachment it"
    by (auto simp: writable_item_Some)
  have fu: "map_option fst (resolve_position (internalReader r) (pendingAnnotation d)) =
      first_usable (selection_sources (internalReader r) (pendingAnnotation d))"
    using pa by (rule resolve_first_usable)
  show ?thesis
  proof (cases "resolve_position (internalReader r) (pendingAnnotation d)")
    case None
    with fu w k iid show ?thesis
      by (simp add: applySemanticColor_eq applyCategory_def writer_outcome_def writer_report_def)
  next
    case (Some pl)
    obtain pos lbl where pl: "pl = (pos, lbl)" by (cases pl)
    with Some obtain si where si: "compute_sort_index pos = Some si"
      using compute_sort_index_resolved by blast
    from Some pl fu have f: "first_usable (selection_sources (internalReader r) (pendingAnnotation d)) = Some pos"
      by simp
    show ?thesis
    proof (cases "save_failure h")
      case None
      with Some pl si f w k iid show ?thesis
        by (auto simp: applySemanticColor_eq applyCategory_def writer_outcome_def saveTx_def
            new_annotation_item_def ann_view_def Let_def)
    next
      case (Some e)
      with \<open>resolve_position _ _ = Some pl\<close> pl si f w k iid show ?thesis
        by (simp add: applySemanticColor_eq applyCategory_def writer_outcome_def saveTx_def Let_def)
    qed
  qed
qed

text \<open>
  Claim C10: for a category of the registry, a cached annotation
  that does not carry an empty \<open>rects\<close> array, what the writer
  reports and stores is what the contract of section 4.4 prescribes: the same failure kind on
  each early return (with the host's message for a rejected save), and on success the
  record of the contract, appended to the store.
\<close>

theorem applySemanticColor_refines:
  assumes "map_of SEMANTIC_COLORS k = Some sc" "no_empty_pending (pendingAnnotation d)"
  shows "writer_outcome (applySemanticColor h rd txt k sc d) = applyCategory h rd txt k d"
proof (cases "writable_item h rd")
  case None
  from None assms(1) show ?thesis by (rule writer_outcome_unwritable)
next
  case (Some it)
  then obtain r where "rd = Some r" by (cases rd) (simp_all add: writable_item_def)
  with Some assms show ?thesis using writer_outcome_writable by blast
qed

section \<open>Witnesses\<close>

theorem applySemanticColor_refines_witness:
  "map_of SEMANTIC_COLORS ''insight'' = Some insight \<and> no_empty_pending (pendingAnnotation sample_data) \<and>
   writer_outcome (applySemanticColor sample_host (Some sample_reader) (Some ''key finding'') ''insight'' insight sample_data) =
   applyCategory sample_host (Some sample_reader) (Some ''key finding'') ''insight'' sample_data"
proof -
  have h: "map_of SEMANTIC_COLORS ''insight'' = Some insight" "no_empty_pending (pendingAnnotation sample_data)"
    by (simp_all add: SEMANTIC_COLORS_def no_empty_pending_def)
  show ?thesis using h applySemanticColor_refines [OF h] by blast
qed

end
