(* ===== verification/Spec2Isabelle.thy ===== *)
theory Spec2Isabelle
  imports Lifecycle Writer_Contract
begin

text \<open>
  \<^bold>\<open>A verification model of zotero-semantic-coloring.\<close>

  The plugin lets a Zotero user tag a passage selected in the PDF reader with one of six
  semantic categories, stored as a coloured highlight annotation. Its code is two files:
  \<open>src/src/modules/semanticColoring.ts\<close> (the category table, the popup builder, the
  annotation writer, a command prompt and a colour helper) and \<open>src/src/hooks.ts\<close> (the
  plugin's lifecycle hooks and the listener that connects the reader's text-selection popup
  to the popup builder). The parts interact through one piece of shared mutable state, the
  per-process cache \<open>addon.data.semanticColors\<close> (\<open>selectedText\<close>,
  \<open>pendingAnnotation\<close>): the popup listener writes it, a click on a category button reads
  it and runs the writer, and the writer reads the host reader's internal selection objects
  and saves a record through the host's item API.

  \<^bold>\<open>Theories.\<close>
  \<^item> \<open>Prelude\<close>: the JavaScript built-ins the code calls, as HOL functions
    (\<open>String(n)\<close> as \<open>js_int_string\<close>, \<open>padStart\<close> as \<open>pad_start\<close>, \<open>Math.floor\<close> of a
    possibly undefined property as \<open>js_floor\<close>, \<open>||\<close> on numbers and strings,
    \<open>substr\<close>, \<open>trim\<close>, \<open>parseInt(_, 16)\<close>), a number holding an integer or NaN as
    \<open>jsint\<close>, and the shared lemmas: decimal digits, zero padding, and the lexicographic
    string order of \<open>HOL-Library.List_Lexorder\<close>, which is JavaScript's \<open><\<close> on the ASCII
    strings the plugin builds.
  \<^item> \<open>Registry\<close>: \<open>SemanticColor\<close> as the record \<open>semantic_color\<close>, \<open>SEMANTIC_COLORS\<close>
    as an association list in declaration order (the order of \<open>Object.entries\<close>), and
    \<open>getContrastColor\<close>.
  \<^item> \<open>Resolver\<close>: the host reader's internal objects (\<open>_state\<close>, \<open>_primaryView\<close>,
    \<open>_selectionRanges\<close>, \<open>_currentSelection\<close>) as records whose optional properties are
    options, and the three fallback tiers of \<open>applySemanticColor\<close> (lines 160--241):
    \<open>primary_view_position\<close> with the range loop \<open>collect_ranges\<close>,
    \<open>current_selection_position\<close>, \<open>pending_position\<close>, composed by
    \<open>resolve_position\<close>. The specification's contract, a fixed list of selection sources
    of which the first usable one wins, is \<open>first_usable\<close> over \<open>selection_sources\<close>.
  \<^item> \<open>Sort_Key\<close>: the sort key (lines 243--249) as \<open>compute_sort_index\<close> and its template
    \<open>format_sort_index\<close>, with a reader \<open>read_sort_index\<close> for the round trip.
  \<^item> \<open>Writer\<close>: \<open>applySemanticColor\<close> (lines 140--281) as a function from the host state
    (\<open>host\<close>: items, annotation store, and whether the next \<open>saveTx\<close> is rejected), the
    reader, the selected text, the category and the cache to the ordered list of its effects
    (\<open>Log\<close>, \<open>Notify_error\<close>, \<open>Saved\<close>, \<open>Focus_reader\<close>) and the new host state. Each
    early return and the \<open>catch\<close> block is a branch; a thrown error is its message.
  \<^item> \<open>Popup\<close>: \<open>buildSemanticColoringPopup\<close> (capture into the cache, buttons), the click
    listener \<open>click_semantic_button\<close>, the hooks.ts listener \<open>onTextSelectionPopup\<close>, and
    the command prompt of \<open>registerSemanticColoringPrompt\<close>.
  \<^item> \<open>Event_Loop\<close>: one window's plugin session (cache, host, rendered popups, effect trace)
    under the two kinds of event the host delivers, a text-selection popup and a button click,
    as the step function \<open>session_step\<close>; \<open>reachable\<close> is the inductive set of sessions
    reachable from the start state, with the cache empty.
  \<^item> \<open>Writer_Contract\<close>: the specification's writer contract (section 4.4),
    \<open>applyCategory\<close>, a \<open>Result\<close>-valued function over the registry lookup and the
    resolver contract with the failure kinds of section 7, and \<open>writer_report\<close>, the
    outcome of \<open>applySemanticColor\<close> as its log lines and notifications report it.
  \<^item> \<open>Lifecycle\<close>: the hooks of \<open>src/src/hooks.ts\<close> (\<open>onStartup\<close>,
    \<open>onMainWindowLoad\<close>, \<open>onMainWindowUnload\<close>, \<open>onShutdown\<close>) as functions on the
    hook-level state \<open>plugin_state\<close> (flags of \<open>addon.data\<close>, the toolkit slot and the
    toolkits created per window, \<open>unregisterAll\<close> calls, inserted FTL files, the host's
    reader listener registrations, the plugin instance on \<open>Zotero\<close>), and the whole
    system: the host's calls of the hook table and its reader events as \<open>sys_step\<close> on
    the pair of hook state and session, a popup event being dispatched to every registered
    listener (\<open>run_listeners\<close>, \<open>popup_dispatch\<close>); \<open>sys_reachable\<close> is the inductive
    set of states reachable from the plugin's load.
  \<^item> this theory: the properties that span the resolver, the sort key and the writer.

  \<^bold>\<open>What is proved.\<close>
  Resolver: the refinement of the specification's contract (\<open>resolve_position_refines\<close>),
  tier priority, the range loop's concatenation and page choice, the tier-2 page label, and,
  for every reader without a usable live source, the acceptance of a cached position with
  an empty \<open>rects\<close> array where the contract reports no geometry (a code bug). Sort key:
  the string order of keys is the lexicographic order of (page, y, x) in the documented
  range; a key reads back to its fields and has the layout 5/6/5 (the specification's
  example shows a six-digit x field); outside the range the code neither rejects nor
  clamps, and all one-digit negative y and all x from 100000 to 899999 misorder. Writer: the
  effects and the new store on every branch (success, no geometry, no reader or non-PDF
  item, rejected save, undefined text), and at most one save per activation. Popup:
  last-write-wins capture, the current-selection fallback, buttons in registry order, and
  the trim in hooks.ts being overwritten. Sessions: invariants of every reachable session
  by rule induction (the cache never holds an empty text or a position-less pending
  annotation; the store only grows, by highlights carrying a registry colour and comment),
  and, for every session, the end-to-end flow from a popup event to the saved highlight of
  the clicked category, the click reading the cache at click time, the undefined-text
  failure and the storing of a highlight without geometry from an empty \<open>rects\<close> array.
  Across components: a saved highlight has geometry unless the cached annotation carried
  empty rects, and its stored sort key is the one computed from its stored position.
  Contract: for every registry category and every cached annotation without empty rects,
  the writer's reported outcome and stored records are those of the \<open>Result\<close>-valued
  contract (\<open>applySemanticColor_refines\<close>), composing the resolver refinement with the
  writer's branches. Lifecycle and system: \<open>onStartup\<close> registers one listener and one
  toolkit per main window and keeps the last window's toolkit; with \<open>n\<close> windows a popup
  shows \<open>n\<close> copies of the category buttons; from any state, unloading any window after
  a window load unregisters the toolkit of the window loaded last; shutdown leaves exactly
  the last toolkit unregistered; with one window the system refines the session model, so
  the session theorems apply to it; the store and cache invariants hold of every reachable
  system state, through any order of hooks and events (by rule induction over
  \<open>sys_reachable\<close>); and progress: from every reachable state with a registered listener,
  a popup event and a click always can save a highlight (\<open>sys_progress\<close>). The
  specification's concrete scenarios (the "insight" record, the two-range selection, the
  sort-key example) and the shape of the registry table are kept as evaluated lemmas.

  \<^bold>\<open>Choices of the model.\<close>
  All definitions are executable and total; the only loops are the range loop, the digit
  recursions, the listener dispatch and the window loads of \<open>onStartup\<close> (a \<open>fold\<close>), all
  structural or with a measure found by \<^theory_text>\<open>fun\<close>, so no fuel is needed. Coordinates are \<open>real\<close> (a finite double is a real, and \<open>Math.floor\<close> is
  \<open>floor\<close> on it); page indices are \<open>int\<close>. A click is one atomic step: the click
  listener passes the cached text as an argument and the writer reads the pending annotation
  before its only \<open>await\<close> (\<open>saveTx\<close>), after which it reads only locals, so no
  interleaving inside a click changes what it does. The key range 100000/1000000/100000 is
  the one the code's field widths 5/6/5 can represent. A thrown value is a JavaScript \<open>Error\<close>
  (\<open>js_error\<close>: name and message): the catch block logs \<open>${error}\<close>
  (\<open>error_string\<close>, "TypeError: \<dots>") and shows \<open>error.message\<close>; the two TypeErrors
  the writer can raise carry the host engine's messages.

  The hooks may be called by the host in any order in \<open>sys_step\<close>, which over-approximates
  the host's lifecycle, so the system invariants hold of every order. A host popup event is
  dispatched to the registered listeners in registration order, each run to completion
  (none awaits); windows are identified by numbers. \<open>onStartup\<close> is the step taken once
  the host's three readiness promises have resolved; its window loads run in the order of
  \<open>getMainWindows()\<close>, as none of them awaits.

  \<^bold>\<open>Not modelled.\<close> \<open>onNotify\<close> and the other log calls (their only effect is a log
  line), \<open>initLocale\<close> and the toolkit internals beyond which toolkit \<open>unregisterAll\<close>
  runs on (code outside \<open>src/\<close>), the empty stubs \<open>updateSemanticColoringPopup\<close> and
  \<open>setupPDFSelectionCapture\<close> (no effect), DOM creation and styling; the text of the
  diagnostic log lines inside the resolver and the arguments of the log calls after the
  save; \<open>JSON.stringify\<close> of the position: the record stores the position value, since
  rendering a double as its shortest round-tripping decimal is not expressible faithfully
  over the reals the model uses; double rounding in \<open>getContrastColor\<close>; exponent
  notation of \<open>String(n)\<close> from \<open>10^21\<close> on; non-ASCII white space in \<open>trim\<close>; the
  host's item store beyond lookup and save, its reader registry beyond registration,
  dispatch and removal on unload, and the \<open>addon\<close> object before the first hook, all
  modelled from the specification and the plugin template; the initial value of
  \<open>addon.data.semanticColors\<close> (defined outside \<open>src/\<close>), taken from the
  specification as empty.

  \<^bold>\<open>Plan for further work.\<close> A session model in which the command prompt is
  registered (the code never registers it, so it is modelled as functions only); the log
  lines as effects of the popup handlers, to state the diagnostics the specification asks for.
\<close>

section \<open>Properties across the resolver, the sort key and the writer\<close>

text \<open>The record the writer saves for the sample reader of theory \<open>Writer\<close>.\<close>

abbreviation sample_saved :: annotation_item where
  "sample_saved \<equiv>
     new_annotation_item sample_item (Some ''key finding'') insight sample_position (Some ''3'')
       ''00002|000002|00001''"

text \<open>
  Claim C19: a highlight the writer saves has a non-empty
  \<open>rects\<close> array whenever the cached pending annotation does not carry an empty one: the
  empty-geometry guard of the specification holds for every source but the cached one.
\<close>

theorem saved_annotation_has_geometry:
  "applySemanticColor h rd txt k sc d = (effs, h') \<Longrightarrow> Saved a \<in> set effs \<Longrightarrow>
   no_empty_pending (pendingAnnotation d) \<Longrightarrow> has_rects (annotationPosition a)"
  by (auto simp: new_annotation_item_def dest!: apply_saved_record dest: resolve_position_has_rects)

text \<open>
  Claim C20: the sort key stored with a saved highlight is the key
  computed from the position stored with it, that position is the one the resolver returned
  for the reader and the cache, and the stored page label is the resolver's label, or "1"
  when it produced none.
\<close>

theorem saved_sort_index_of_position:
  "applySemanticColor h rd txt k sc d = (effs, h') \<Longrightarrow> Saved a \<in> set effs \<Longrightarrow>
   compute_sort_index (annotationPosition a) = Some (annotationSortIndex a) \<and>
   (\<exists>r lbl. rd = Some r \<and>
      resolve_position (internalReader r) (pendingAnnotation d) = Some (annotationPosition a, lbl) \<and>
      annotationPageLabel a = (case lbl of None \<Rightarrow> ''1'' | Some l \<Rightarrow> if l = [] then ''1'' else l))"
  by (auto simp: new_annotation_item_def dest!: apply_saved_record)

section \<open>Witnesses\<close>

lemma sample_apply_saves:
  "Saved sample_saved \<in> set (fst (applySemanticColor sample_host (Some sample_reader)
     (Some ''key finding'') ''insight'' insight sample_data))"
  by (simp add: applySemanticColor_def resolve_position_def tier_defs no_annotation_selected_def
      has_rects_def compute_sort_index_def format_sort_index_def saveTx_def Let_def js_simps
      js_nat_string_def decimal_digits.simps)

theorem saved_annotation_has_geometry_witness:
  "applySemanticColor sample_host (Some sample_reader) (Some ''key finding'') ''insight'' insight sample_data =
     (fst (applySemanticColor sample_host (Some sample_reader) (Some ''key finding'') ''insight'' insight sample_data),
      snd (applySemanticColor sample_host (Some sample_reader) (Some ''key finding'') ''insight'' insight sample_data)) \<and>
   Saved sample_saved \<in> set (fst (applySemanticColor sample_host (Some sample_reader) (Some ''key finding'')
     ''insight'' insight sample_data)) \<and>
   no_empty_pending (pendingAnnotation sample_data) \<and>
   has_rects (annotationPosition sample_saved)"
proof -
  have h: "applySemanticColor sample_host (Some sample_reader) (Some ''key finding'') ''insight'' insight sample_data =
     (fst (applySemanticColor sample_host (Some sample_reader) (Some ''key finding'') ''insight'' insight sample_data),
      snd (applySemanticColor sample_host (Some sample_reader) (Some ''key finding'') ''insight'' insight sample_data))"
    by simp
  have n: "no_empty_pending (pendingAnnotation sample_data)" by (simp add: no_empty_pending_def)
  show ?thesis
    using h sample_apply_saves n saved_annotation_has_geometry [OF h sample_apply_saves n] by blast
qed

theorem saved_sort_index_of_position_witness:
  "applySemanticColor sample_host (Some sample_reader) (Some ''key finding'') ''insight'' insight sample_data =
     (fst (applySemanticColor sample_host (Some sample_reader) (Some ''key finding'') ''insight'' insight sample_data),
      snd (applySemanticColor sample_host (Some sample_reader) (Some ''key finding'') ''insight'' insight sample_data)) \<and>
   Saved sample_saved \<in> set (fst (applySemanticColor sample_host (Some sample_reader) (Some ''key finding'')
     ''insight'' insight sample_data)) \<and>
   compute_sort_index (annotationPosition sample_saved) = Some (annotationSortIndex sample_saved) \<and>
   (\<exists>r lbl. Some sample_reader = Some r \<and>
      resolve_position (internalReader r) (pendingAnnotation sample_data) = Some (annotationPosition sample_saved, lbl) \<and>
      annotationPageLabel sample_saved = (case lbl of None \<Rightarrow> ''1'' | Some l \<Rightarrow> if l = [] then ''1'' else l))"
proof -
  have h: "applySemanticColor sample_host (Some sample_reader) (Some ''key finding'') ''insight'' insight sample_data =
     (fst (applySemanticColor sample_host (Some sample_reader) (Some ''key finding'') ''insight'' insight sample_data),
      snd (applySemanticColor sample_host (Some sample_reader) (Some ''key finding'') ''insight'' insight sample_data))"
    by simp
  show ?thesis
    using h sample_apply_saves saved_sort_index_of_position [OF h sample_apply_saves] by blast
qed

end
